theory Spec2Isabelle
  imports Main
begin

section \<open>Data model\<close>

text \<open>
  The enumerations of the schema (\<open>Role\<close>, \<open>UserType\<close>, \<open>SignupMethod\<close>) and the
  \<open>User\<close> row as the service reads and writes it. Times are milliseconds since the
  epoch (\<open>Date.now()\<close>); a nullable column is an \<open>option\<close>.
\<close>

datatype Role = USER | ADMIN

datatype UserType = GUEST | REGISTERED

datatype SignupMethod = EMAIL | GOOGLE

record User =
  user_id :: string
  username :: string
  email :: string
  phone :: "string option"
  password :: string
  role :: Role
  userType :: UserType
  signupMethod :: SignupMethod
  isEmailVerified :: bool
  isActive :: bool
  isDeleted :: bool
  otpCode :: "string option"
  otpExpiresAt :: "nat option"
  refreshToken :: "string option"
  profilePicture :: "string option"

text \<open>
  \<open>AuthDto.toResponse\<close> spreads the user and overwrites four fields with
  \<open>undefined\<close>: in the response every sensitive field is optional, \<open>None\<close> being
  \<open>undefined\<close> (for a nullable column, \<open>Some None\<close> would be a present \<open>null\<close>).
\<close>

record SafeUser =
  s_id :: string
  s_username :: string
  s_email :: string
  s_phone :: "string option"
  s_password :: "string option"
  s_role :: Role
  s_userType :: UserType
  s_signupMethod :: SignupMethod
  s_isEmailVerified :: bool
  s_isActive :: bool
  s_isDeleted :: bool
  s_otpCode :: "string option option"
  s_otpExpiresAt :: "nat option option"
  s_refreshToken :: "string option option"
  s_profilePicture :: "string option"

text \<open>The projection the authentication middleware caches and attaches to the request.\<close>

record AuthUser =
  a_id :: string
  a_username :: string
  a_email :: string
  a_role :: Role
  a_userType :: UserType
  a_isEmailVerified :: bool
  a_isActive :: bool

record TokenPayload =
  tp_id :: string
  tp_email :: string
  tp_role :: Role

record Tokens =
  t_accessToken :: string
  t_refreshToken :: string

text \<open>The claims of a decoded token that the code reads: \<open>decoded.id\<close> and \<open>decoded.exp\<close>
  (seconds since the epoch), each possibly missing.\<close>

record JwtPayload =
  jwt_id :: "string option"
  jwt_exp :: "nat option"

text \<open>What \<open>auth.verifyIdToken\<close> of the Firebase SDK returns, as far as
  \<open>verifyFirebaseToken\<close> reads it.\<close>

record DecodedIdToken =
  fb_uid :: string
  fb_email :: "string option"
  fb_email_verified :: "bool option"
  fb_name :: "string option"
  fb_picture :: "string option"
  fb_phone_number :: "string option"

record FirebaseUser =
  f_uid :: string
  f_email :: string
  f_emailVerified :: bool
  f_name :: "string option"
  f_picture :: "string option"
  f_phoneNumber :: "string option"

subsection \<open>Errors\<close>

datatype HttpStatusCode =
  BAD_REQUEST | UNAUTHORIZED | FORBIDDEN | NOT_FOUND | CONFLICT
  | UNPROCESSABLE_ENTITY | INTERNAL_SERVER_ERROR

record AppError =
  message :: string
  statusCode :: HttpStatusCode
  errors :: "(string \<times> string) list option"

text \<open>
  What an operation can throw: an \<open>AppError\<close>, an error of the Prisma client (a
  record to update that does not exist, a unique constraint), or whatever the token
  library throws on a token it rejects, where the code does not catch it.
\<close>

datatype Thrown = AppErr AppError | PrismaErr string | JwtErr

definition badRequest :: "string \<Rightarrow> (string \<times> string) list option \<Rightarrow> AppError" where
  "badRequest m es = \<lparr>message = m, statusCode = BAD_REQUEST, errors = es\<rparr>"

definition unauthorized :: "string \<Rightarrow> (string \<times> string) list option \<Rightarrow> AppError" where
  "unauthorized m es = \<lparr>message = m, statusCode = UNAUTHORIZED, errors = es\<rparr>"

definition forbidden :: "string \<Rightarrow> (string \<times> string) list option \<Rightarrow> AppError" where
  "forbidden m es = \<lparr>message = m, statusCode = FORBIDDEN, errors = es\<rparr>"

definition notFound :: "string \<Rightarrow> (string \<times> string) list option \<Rightarrow> AppError" where
  "notFound m es = \<lparr>message = m, statusCode = NOT_FOUND, errors = es\<rparr>"

definition conflict :: "string \<Rightarrow> (string \<times> string) list option \<Rightarrow> AppError" where
  "conflict m es = \<lparr>message = m, statusCode = CONFLICT, errors = es\<rparr>"

subsection \<open>The environment\<close>

text \<open>
  The utilities the service imports from \<open>@/utils\<close> and the libraries behind them are
  parameters of the model: password hashing and comparison, token signing and decoding,
  the Firebase verifier, the mail transport (\<open>False\<close>: the send throws) and the mail
  templates.
\<close>

record Env =
  hashPassword :: "string \<Rightarrow> string"
  comparePassword :: "string \<Rightarrow> string \<Rightarrow> bool"
  generateTokens :: "TokenPayload \<Rightarrow> nat \<Rightarrow> Tokens"
  decodeRefreshToken :: "string \<Rightarrow> JwtPayload option"
  decodeAccessToken :: "string \<Rightarrow> JwtPayload option"
  verifyIdToken :: "string \<Rightarrow> DecodedIdToken option"
  sendEmail :: "string \<Rightarrow> string \<Rightarrow> string \<Rightarrow> bool"
  getVerificationEmailTemplate :: "string \<Rightarrow> string"
  getForgotPasswordEmailTemplate :: "string \<Rightarrow> string"

definition tokenLive :: "JwtPayload \<Rightarrow> nat \<Rightarrow> bool" where
  "tokenLive d now = (case jwt_exp d of None \<Rightarrow> True | Some e \<Rightarrow> now div 1000 < e)"

text \<open>
  Modelled from the spec: \<open>verifyRefreshToken\<close> and \<open>verifyToken\<close> are not in src/.
  Section 4.2: verification returns the decoded payload or fails, an expired, a malformed
  and a badly signed token alike. Decoding (with the signature check) is the
  environment's; a token is expired once the clock, in seconds, has reached its
  \<open>exp\<close> claim. \<open>None\<close> is the throw.
\<close>

definition verifyRefreshToken :: "Env \<Rightarrow> string \<Rightarrow> nat \<Rightarrow> JwtPayload option" where
  "verifyRefreshToken E token now =
     (case decodeRefreshToken E token of
        None \<Rightarrow> None
      | Some d \<Rightarrow> if tokenLive d now then Some d else None)"

definition verifyToken :: "Env \<Rightarrow> string \<Rightarrow> nat \<Rightarrow> JwtPayload option" where
  "verifyToken E token now =
     (case decodeAccessToken E token of
        None \<Rightarrow> None
      | Some d \<Rightarrow> if tokenLive d now then Some d else None)"

subsection \<open>State: the user table, the cache, the log\<close>

datatype CacheValue = CUser User | CString string | CAuthUser AuthUser

datatype LogLevel = LInfo | LWarn | LError | LDebug

record State =
  users :: "User list"
  cache :: "string list \<Rightarrow> (CacheValue \<times> nat) option"
  logs :: "(LogLevel \<times> string) list"

definition logger :: "LogLevel \<Rightarrow> string \<Rightarrow> State \<Rightarrow> State" where
  "logger lvl msg s = s\<lparr>logs := logs s @ [(lvl, msg)]\<rparr>"

text \<open>
  Modelled from the spec: \<open>makeKey\<close>, \<open>cacheGet\<close>, \<open>cacheSet\<close> and \<open>cacheDel\<close> are not in
  src/. Section 2: a key-value store with TTL. A key is the list of its parts; an
  entry holds its value and the time it expires at; a read after that time misses.
\<close>

definition makeKey :: "string list \<Rightarrow> string list" where
  "makeKey parts = parts"

definition cacheGet :: "string list \<Rightarrow> nat \<Rightarrow> State \<Rightarrow> CacheValue option" where
  "cacheGet key now s =
     (case cache s key of
        None \<Rightarrow> None
      | Some (v, expiresAt) \<Rightarrow> if now < expiresAt then Some v else None)"

definition cacheSet :: "string list \<Rightarrow> CacheValue \<Rightarrow> nat \<Rightarrow> nat \<Rightarrow> State \<Rightarrow> State" where
  "cacheSet key v ttlSeconds now s =
     s\<lparr>cache := (cache s)(key \<mapsto> (v, now + ttlSeconds * 1000))\<rparr>"

definition cacheDel :: "string list \<Rightarrow> State \<Rightarrow> State" where
  "cacheDel key s = s\<lparr>cache := (cache s)(key := None)\<rparr>"

text \<open>\<open>cacheGet<T>\<close> read at the type the caller asks for.\<close>

definition cacheGetUser :: "string list \<Rightarrow> nat \<Rightarrow> State \<Rightarrow> User option" where
  "cacheGetUser key now s =
     (case cacheGet key now s of Some (CUser u) \<Rightarrow> Some u | _ \<Rightarrow> None)"

definition cacheGetString :: "string list \<Rightarrow> nat \<Rightarrow> State \<Rightarrow> string option" where
  "cacheGetString key now s =
     (case cacheGet key now s of Some (CString c) \<Rightarrow> Some c | _ \<Rightarrow> None)"

definition cacheGetAuthUser :: "string list \<Rightarrow> nat \<Rightarrow> State \<Rightarrow> AuthUser option" where
  "cacheGetAuthUser key now s =
     (case cacheGet key now s of Some (CAuthUser u) \<Rightarrow> Some u | _ \<Rightarrow> None)"

definition USER_CACHE_TTL :: nat where
  "USER_CACHE_TTL = 15 * 60"

definition OTP_CACHE_TTL :: nat where
  "OTP_CACHE_TTL = 10 * 60"

definition USER_MIDDLEWARE_CACHE_TTL :: nat where
  "USER_MIDDLEWARE_CACHE_TTL = 5 * 60"

section \<open>The Prisma client, with its query extension\<close>

text \<open>
  The \<open>where\<close> clauses of the repository select by a unique column. The \<open>data\<close> of
  an update is partial: \<open>None\<close> leaves the column as it is; for a nullable column
  \<open>Some None\<close> writes \<open>null\<close>.
\<close>

datatype UserWhere = ByEmail string | ById string

fun matches :: "UserWhere \<Rightarrow> User \<Rightarrow> bool" where
  "matches (ByEmail e) u = (email u = e)"
| "matches (ById i) u = (user_id u = i)"

record UserData =
  d_username :: "string option"
  d_email :: "string option"
  d_phone :: "string option"
  d_password :: "string option"
  d_signupMethod :: "SignupMethod option"
  d_userType :: "UserType option"
  d_isEmailVerified :: "bool option"
  d_otpCode :: "string option option"
  d_otpExpiresAt :: "nat option option"
  d_refreshToken :: "string option option"
  d_profilePicture :: "string option"

definition noData :: UserData where
  "noData = \<lparr>d_username = None, d_email = None, d_phone = None, d_password = None,
     d_signupMethod = None, d_userType = None, d_isEmailVerified = None, d_otpCode = None,
     d_otpExpiresAt = None, d_refreshToken = None, d_profilePicture = None\<rparr>"

definition orElse :: "'a option \<Rightarrow> 'a \<Rightarrow> 'a" where
  "orElse x d = (case x of None \<Rightarrow> d | Some v \<Rightarrow> v)"

definition applyData :: "UserData \<Rightarrow> User \<Rightarrow> User" where
  "applyData d u =
     u\<lparr>username := orElse (d_username d) (username u),
       email := orElse (d_email d) (email u),
       phone := (case d_phone d of None \<Rightarrow> phone u | Some p \<Rightarrow> Some p),
       password := orElse (d_password d) (password u),
       signupMethod := orElse (d_signupMethod d) (signupMethod u),
       userType := orElse (d_userType d) (userType u),
       isEmailVerified := orElse (d_isEmailVerified d) (isEmailVerified u),
       otpCode := orElse (d_otpCode d) (otpCode u),
       otpExpiresAt := orElse (d_otpExpiresAt d) (otpExpiresAt u),
       refreshToken := orElse (d_refreshToken d) (refreshToken u),
       profilePicture := (case d_profilePicture d of None \<Rightarrow> profilePicture u | Some p \<Rightarrow> Some p)\<rparr>"

text \<open>
  The extension's hook on \<open>user.create\<close> and \<open>user.update\<close>:
  \<open>if (args.data && args.data.password) args.data.password = await hashPassword(...)\<close>.
  An empty string is falsy and is written as it is.
\<close>

definition hashHook :: "Env \<Rightarrow> string \<Rightarrow> string" where
  "hashHook E p = (if p \<noteq> [] then hashPassword E p else p)"

definition hookData :: "Env \<Rightarrow> UserData \<Rightarrow> UserData" where
  "hookData E d =
     (case d_password d of
        None \<Rightarrow> d
      | Some p \<Rightarrow> d\<lparr>d_password := Some (hashHook E p)\<rparr>)"

fun updateFirst :: "('a \<Rightarrow> bool) \<Rightarrow> ('a \<Rightarrow> 'a) \<Rightarrow> 'a list \<Rightarrow> 'a list" where
  "updateFirst P f [] = []"
| "updateFirst P f (x # xs) = (if P x then f x # xs else x # updateFirst P f xs)"

text \<open>
  The unique indexes of the table (\<open>User_email_key\<close>, \<open>User_phone_key\<close>) and its primary
  key. An update is refused when it moves the row onto the email or the phone of another
  row.
\<close>

definition uniqueViolation :: "User list \<Rightarrow> User \<Rightarrow> User \<Rightarrow> bool" where
  "uniqueViolation us u u' =
     ((email u' \<noteq> email u \<and> list_ex (\<lambda>v. email v = email u') (remove1 u us))
      \<or> (phone u' \<noteq> phone u \<and> phone u' \<noteq> None
          \<and> list_ex (\<lambda>v. phone v = phone u') (remove1 u us)))"

definition prisma_user_findUnique :: "UserWhere \<Rightarrow> State \<Rightarrow> User option" where
  "prisma_user_findUnique wh s = find (matches wh) (users s)"

definition prisma_user_update ::
  "Env \<Rightarrow> UserWhere \<Rightarrow> UserData \<Rightarrow> State \<Rightarrow> (Thrown + User) \<times> State" where
  "prisma_user_update E wh d s =
     (case find (matches wh) (users s) of
        None \<Rightarrow> (Inl (PrismaErr ''P2025''), s)
      | Some u \<Rightarrow>
          (let u' = applyData (hookData E d) u in
           if uniqueViolation (users s) u u' then (Inl (PrismaErr ''P2002''), s)
           else (Inr u', s\<lparr>users := updateFirst (matches wh) (\<lambda>_. u') (users s)\<rparr>)))"

definition prisma_user_create :: "Env \<Rightarrow> User \<Rightarrow> State \<Rightarrow> (Thrown + User) \<times> State" where
  "prisma_user_create E row s =
     (let u = row\<lparr>password := hashHook E (password row)\<rparr> in
      if list_ex (\<lambda>v. user_id v = user_id u \<or> email v = email u
                       \<or> (phone u \<noteq> None \<and> phone v = phone u)) (users s)
      then (Inl (PrismaErr ''P2002''), s)
      else (Inr u, s\<lparr>users := users s @ [u]\<rparr>))"

section \<open>AuthRepository\<close>

record CreateInput =
  c_username :: string
  c_email :: string
  c_phone :: "string option"
  c_password :: string
  c_signupMethod :: SignupMethod
  c_isEmailVerified :: "bool option"
  c_profilePicture :: "string option"
  c_userType :: "UserType option"

text \<open>\<open>newId\<close> is the primary key the database draws for the row; the other columns
  the payload does not give take their defaults.\<close>

definition AuthRepository_create ::
  "Env \<Rightarrow> CreateInput \<Rightarrow> string \<Rightarrow> nat \<Rightarrow> State \<Rightarrow> (Thrown + User) \<times> State" where
  "AuthRepository_create E payload newId now s =
     (case prisma_user_create E
        \<lparr>user_id = newId, username = c_username payload, email = c_email payload,
         phone = c_phone payload, password = c_password payload, role = USER,
         userType = orElse (c_userType payload) REGISTERED,
         signupMethod = c_signupMethod payload,
         isEmailVerified = orElse (c_isEmailVerified payload) False,
         isActive = True, isDeleted = False, otpCode = None, otpExpiresAt = None,
         refreshToken = None, profilePicture = c_profilePicture payload\<rparr> s of
        (Inl e, s1) \<Rightarrow> (Inl e, s1)
      | (Inr user, s1) \<Rightarrow>
          (let s2 = cacheSet (makeKey [''user'', user_id user]) (CUser user) USER_CACHE_TTL now s1;
               s3 = cacheSet (makeKey [''user'', ''email'', email user]) (CUser user)
                      USER_CACHE_TTL now s2
           in (Inr user, s3)))"

definition AuthRepository_findByEmail :: "string \<Rightarrow> bool \<Rightarrow> nat \<Rightarrow> State \<Rightarrow> User option \<times> State" where
  "AuthRepository_findByEmail em useCache now s =
     (case (if useCache then cacheGetUser (makeKey [''user'', ''email'', em]) now s else None) of
        Some cached \<Rightarrow> (Some cached, s)
      | None \<Rightarrow>
          (case prisma_user_findUnique (ByEmail em) s of
             None \<Rightarrow> (None, s)
           | Some user \<Rightarrow>
               if useCache
               then (Some user,
                     cacheSet (makeKey [''user'', ''email'', em]) (CUser user) USER_CACHE_TTL now s)
               else (Some user, s)))"

definition AuthRepository_findById :: "string \<Rightarrow> nat \<Rightarrow> State \<Rightarrow> User option \<times> State" where
  "AuthRepository_findById i now s =
     (case cacheGetUser (makeKey [''user'', i]) now s of
        Some cached \<Rightarrow> (Some cached, s)
      | None \<Rightarrow>
          (case prisma_user_findUnique (ById i) s of
             None \<Rightarrow> (None, s)
           | Some user \<Rightarrow>
               (Some user, cacheSet (makeKey [''user'', i]) (CUser user) USER_CACHE_TTL now s)))"

definition AuthRepository_findByEmailWithPassword :: "string \<Rightarrow> State \<Rightarrow> User option" where
  "AuthRepository_findByEmailWithPassword em s = prisma_user_findUnique (ByEmail em) s"

definition AuthRepository_updateOtp ::
  "Env \<Rightarrow> string \<Rightarrow> string \<Rightarrow> nat \<Rightarrow> State \<Rightarrow> (Thrown + User) \<times> State" where
  "AuthRepository_updateOtp E em otp expiresAt s =
     (case prisma_user_update E (ByEmail em)
             (noData\<lparr>d_otpCode := Some (Some otp), d_otpExpiresAt := Some (Some expiresAt)\<rparr>) s of
        (Inl e, s1) \<Rightarrow> (Inl e, s1)
      | (Inr user, s1) \<Rightarrow>
          (Inr user, cacheDel (makeKey [''user'', user_id user])
                       (cacheDel (makeKey [''user'', ''email'', em]) s1)))"

definition AuthRepository_verifyEmail :: "Env \<Rightarrow> string \<Rightarrow> State \<Rightarrow> (Thrown + User) \<times> State" where
  "AuthRepository_verifyEmail E em s =
     (case prisma_user_update E (ByEmail em)
             (noData\<lparr>d_isEmailVerified := Some True, d_otpCode := Some None,
                     d_otpExpiresAt := Some None\<rparr>) s of
        (Inl e, s1) \<Rightarrow> (Inl e, s1)
      | (Inr user, s1) \<Rightarrow>
          (Inr user, cacheDel (makeKey [''user'', user_id user])
                       (cacheDel (makeKey [''user'', ''email'', em]) s1)))"

definition AuthRepository_updatePassword :: "Env \<Rightarrow> string \<Rightarrow> string \<Rightarrow> State \<Rightarrow> (Thrown + User) \<times> State" where
  "AuthRepository_updatePassword E em pw s =
     (case prisma_user_update E (ByEmail em)
             (noData\<lparr>d_password := Some pw, d_otpCode := Some None,
                     d_otpExpiresAt := Some None\<rparr>) s of
        (Inl e, s1) \<Rightarrow> (Inl e, s1)
      | (Inr user, s1) \<Rightarrow>
          (Inr user, cacheDel (makeKey [''user'', user_id user])
                       (cacheDel (makeKey [''user'', ''email'', em]) s1)))"

definition AuthRepository_updateRefreshToken ::
  "Env \<Rightarrow> string \<Rightarrow> string option \<Rightarrow> State \<Rightarrow> (Thrown + User) \<times> State" where
  "AuthRepository_updateRefreshToken E userId token s =
     (case prisma_user_update E (ById userId) (noData\<lparr>d_refreshToken := Some token\<rparr>) s of
        (Inl e, s1) \<Rightarrow> (Inl e, s1)
      | (Inr user, s1) \<Rightarrow> (Inr user, cacheDel (makeKey [''user'', userId]) s1))"

definition AuthRepository_updateProfile ::
  "Env \<Rightarrow> string \<Rightarrow> UserData \<Rightarrow> State \<Rightarrow> (Thrown + User) \<times> State" where
  "AuthRepository_updateProfile E userId d s =
     (case prisma_user_update E (ById userId) d s of
        (Inl e, s1) \<Rightarrow> (Inl e, s1)
      | (Inr user, s1) \<Rightarrow>
          (let s2 = cacheDel (makeKey [''user'', userId]) s1;
               s3 = cacheDel (makeKey [''user'', ''email'', email user]) s2;
               s4 = (case phone user of
                       None \<Rightarrow> s3
                     | Some p \<Rightarrow> if p \<noteq> [] then cacheDel (makeKey [''user'', ''phone'', p]) s3
                               else s3)
           in (Inr user, s4)))"

definition AuthRepository_setOtpCache :: "string \<Rightarrow> string \<Rightarrow> string \<Rightarrow> nat \<Rightarrow> State \<Rightarrow> State" where
  "AuthRepository_setOtpCache em ty otp now s =
     cacheSet (makeKey [''otp'', ty, em]) (CString otp) OTP_CACHE_TTL now s"

definition AuthRepository_getOtpCache :: "string \<Rightarrow> string \<Rightarrow> nat \<Rightarrow> State \<Rightarrow> string option" where
  "AuthRepository_getOtpCache em ty now s = cacheGetString (makeKey [''otp'', ty, em]) now s"

definition AuthRepository_deleteOtpCache :: "string \<Rightarrow> string \<Rightarrow> State \<Rightarrow> State" where
  "AuthRepository_deleteOtpCache em ty s = cacheDel (makeKey [''otp'', ty, em]) s"

definition AuthRepository_blacklistToken :: "string \<Rightarrow> nat \<Rightarrow> nat \<Rightarrow> State \<Rightarrow> State" where
  "AuthRepository_blacklistToken token expiresIn now s =
     cacheSet (makeKey [''blacklist'', ''token'', token]) (CString ''1'') expiresIn now s"

definition AuthRepository_isTokenBlacklisted :: "string \<Rightarrow> nat \<Rightarrow> State \<Rightarrow> bool" where
  "AuthRepository_isTokenBlacklisted token now s =
     (cacheGet (makeKey [''blacklist'', ''token'', token]) now s \<noteq> None)"

section \<open>AuthDto\<close>

datatype Response =
  UserResponse SafeUser
  | LoginResponse SafeUser Tokens
  | VerifiedResponse bool string
  | EmailResponse string
  | MessageResponse string

definition safeData :: "User \<Rightarrow> SafeUser" where
  "safeData u =
     \<lparr>s_id = user_id u, s_username = username u, s_email = email u, s_phone = phone u,
      s_password = None, s_role = role u, s_userType = userType u,
      s_signupMethod = signupMethod u, s_isEmailVerified = isEmailVerified u,
      s_isActive = isActive u, s_isDeleted = isDeleted u, s_otpCode = None,
      s_otpExpiresAt = None, s_refreshToken = None, s_profilePicture = profilePicture u\<rparr>"

definition AuthDto_toResponse :: "User \<Rightarrow> Response" where
  "AuthDto_toResponse u = UserResponse (safeData u)"

definition AuthDto_toSignupResponse :: "User \<Rightarrow> Response" where
  "AuthDto_toSignupResponse u = AuthDto_toResponse u"

definition AuthDto_toLoginResponse :: "User \<Rightarrow> Tokens \<Rightarrow> Response" where
  "AuthDto_toLoginResponse u token =
     (case AuthDto_toResponse u of
        UserResponse su \<Rightarrow> LoginResponse su token
      | r \<Rightarrow> r)"

section \<open>AuthService\<close>

text \<open>
  Every operation takes the environment, its arguments, the time of the call and the
  state, and returns what it throws or returns together with the state it leaves: a
  write made before a throw stays. The clock is read once per call. The values the code draws at random (the OTP of
  \<open>generateOtp\<close>, the strings of \<open>Math.random().toString(36)\<close>) and the key of a new
  row are arguments.
\<close>

datatype OtpType = ForgotPassword | EmailVerification

fun otpTypeName :: "OtpType \<Rightarrow> string" where
  "otpTypeName ForgotPassword = ''forgotPassword''"
| "otpTypeName EmailVerification = ''emailVerification''"

record SignupInput =
  su_username :: string
  su_email :: string
  su_phone :: "string option"
  su_password :: string
  su_signupMethod :: SignupMethod

record LoginInput =
  l_email :: string
  l_password :: string

record VerifyOtpInput =
  v_email :: string
  v_otp :: string
  v_type :: OtpType

record ResendOtpInput =
  r_email :: string
  r_type :: OtpType

record ChangePasswordInput =
  currentPassword :: string
  newPassword :: string

record UpdateProfileInput =
  up_username :: "string option"
  up_phone :: "string option"
  up_profilePicture :: "string option"

record ConvertGuestToRegisteredInput =
  cg_email :: string
  cg_password :: string
  cg_username :: "string option"

definition tokenPayloadOf :: "User \<Rightarrow> TokenPayload" where
  "tokenPayloadOf u = \<lparr>tp_id = user_id u, tp_email = email u, tp_role = role u\<rparr>"

definition fieldError :: "string \<Rightarrow> string \<Rightarrow> (string \<times> string) list option" where
  "fieldError f m = Some [(f, m)]"

text \<open>The mail of signup and of guest conversion: a failed send is caught and logged.\<close>

definition sendVerificationMail :: "Env \<Rightarrow> string \<Rightarrow> string \<Rightarrow> string \<Rightarrow> State \<Rightarrow> State" where
  "sendVerificationMail E em otp okMsg s =
     (if sendEmail E em ''Verify Your Email Address'' (getVerificationEmailTemplate E otp)
      then logger LInfo okMsg s
      else logger LError ''Failed to send verification email'' s)"

definition AuthService_signup ::
  "Env \<Rightarrow> SignupInput \<Rightarrow> string \<Rightarrow> string \<Rightarrow> nat \<Rightarrow> State \<Rightarrow> (Thrown + Response) \<times> State" where
  "AuthService_signup E payload otp newId now s =
     (case AuthRepository_findByEmail (su_email payload) True now s of
        (Some existingUser, s1) \<Rightarrow>
          (Inl (AppErr (conflict ''Email already exists''
                          (fieldError ''email'' ''Email already exists''))), s1)
      | (None, s1) \<Rightarrow>
          (let otpExpires = now + 10 * 60 * 1000 in
           case AuthRepository_create E
                  \<lparr>c_username = su_username payload, c_email = su_email payload,
                   c_phone = su_phone payload, c_password = su_password payload,
                   c_signupMethod = su_signupMethod payload, c_isEmailVerified = None,
                   c_profilePicture = None, c_userType = None\<rparr> newId now s1 of
             (Inl e, s2) \<Rightarrow> (Inl e, s2)
           | (Inr user, s2) \<Rightarrow>
               (case AuthRepository_updateOtp E (su_email payload) otp otpExpires s2 of
                  (Inl e, s3) \<Rightarrow> (Inl e, s3)
                | (Inr _, s3) \<Rightarrow>
                    (let s4 = AuthRepository_setOtpCache (su_email payload)
                                ''emailVerification'' otp now s3;
                         s5 = sendVerificationMail E (su_email payload) otp
                                ''Verification email sent'' s4
                     in (Inr (AuthDto_toSignupResponse user), s5)))))"

definition issueTokens ::
  "Env \<Rightarrow> User \<Rightarrow> nat \<Rightarrow> State \<Rightarrow> (Thrown + Response) \<times> State" where
  "issueTokens E user now s =
     (let token = generateTokens E (tokenPayloadOf user) now in
      case AuthRepository_updateRefreshToken E (user_id user) (Some (t_refreshToken token)) s of
        (Inl e, s1) \<Rightarrow> (Inl e, s1)
      | (Inr _, s1) \<Rightarrow> (Inr (AuthDto_toLoginResponse user token), s1))"

definition AuthService_login ::
  "Env \<Rightarrow> LoginInput \<Rightarrow> nat \<Rightarrow> State \<Rightarrow> (Thrown + Response) \<times> State" where
  "AuthService_login E payload now s =
     (case AuthRepository_findByEmailWithPassword (l_email payload) s of
        None \<Rightarrow>
          (Inl (AppErr (unauthorized ''Invalid email or password''
                          (fieldError ''email'' ''Invalid email or password''))), s)
      | Some user \<Rightarrow>
          if \<not> isActive user
          then (Inl (AppErr (forbidden ''Account is deactivated''
                               (fieldError ''email'' ''Account is deactivated''))), s)
          else if isDeleted user
          then (Inl (AppErr (forbidden ''Account has been deleted''
                               (fieldError ''email'' ''Account has been deleted''))), s)
          else if \<not> comparePassword E (l_password payload) (password user)
          then (Inl (AppErr (unauthorized ''Invalid email or password''
                               (fieldError ''email'' ''Invalid email or password''))), s)
          else if \<not> isEmailVerified user
          then (Inl (AppErr (unauthorized ''Please verify your email before logging in''
                               (fieldError ''email''
                                  ''Please verify your email before logging in''))), s)
          else issueTokens E user now s)"

text \<open>
  The check at the head of \<open>verifyOtp\<close>: the cached code first, the code stored on the
  user as a fallback. \<open>None\<close>: the check passed. \<open>!x\<close> on a string is true for
  \<open>null\<close> and for the empty string.
\<close>

definition otpCheck :: "VerifyOtpInput \<Rightarrow> nat \<Rightarrow> State \<Rightarrow> AppError option \<times> State" where
  "otpCheck payload now s =
     (let cachedOtp = AuthRepository_getOtpCache (v_email payload) (otpTypeName (v_type payload)) now s in
      if cachedOtp = None \<or> cachedOtp = Some [] \<or> cachedOtp \<noteq> Some (v_otp payload)
      then
        (case AuthRepository_findByEmail (v_email payload) False now s of
           (None, s1) \<Rightarrow>
             (Some (badRequest ''Invalid or expired OTP code''
                      (fieldError ''otp'' ''Invalid or expired OTP code'')), s1)
         | (Some user, s1) \<Rightarrow>
             if otpCode user = None \<or> otpCode user = Some [] \<or> otpCode user \<noteq> Some (v_otp payload)
             then (Some (badRequest ''Invalid or expired OTP code''
                           (fieldError ''otp'' ''Invalid or expired OTP code'')), s1)
             else
               (case otpExpiresAt user of
                  None \<Rightarrow>
                    (Some (badRequest ''OTP code has expired''
                             (fieldError ''otp'' ''OTP code has expired'')), s1)
                | Some expires \<Rightarrow>
                    if expires < now
                    then (Some (badRequest ''OTP code has expired''
                                  (fieldError ''otp'' ''OTP code has expired'')), s1)
                    else (None, s1)))
      else (None, s))"

definition AuthService_verifyOtp ::
  "Env \<Rightarrow> VerifyOtpInput \<Rightarrow> nat \<Rightarrow> State \<Rightarrow> (Thrown + Response) \<times> State" where
  "AuthService_verifyOtp E payload now s =
     (case otpCheck payload now s of
        (Some e, s1) \<Rightarrow> (Inl (AppErr e), s1)
      | (None, s1) \<Rightarrow>
          (case v_type payload of
             EmailVerification \<Rightarrow>
               (case AuthRepository_verifyEmail E (v_email payload) s1 of
                  (Inl e, s2) \<Rightarrow> (Inl e, s2)
                | (Inr user, s2) \<Rightarrow>
                    issueTokens E user now
                      (logger LInfo ''Email verified successfully''
                         (AuthRepository_deleteOtpCache (v_email payload)
                            (otpTypeName (v_type payload)) s2)))
           | ForgotPassword \<Rightarrow>
               (Inr (VerifiedResponse True (v_email payload)),
                AuthRepository_deleteOtpCache (v_email payload)
                  (otpTypeName (v_type payload)) s1)))"

definition AuthService_resendOtp ::
  "Env \<Rightarrow> ResendOtpInput \<Rightarrow> string \<Rightarrow> nat \<Rightarrow> State \<Rightarrow> (Thrown + Response) \<times> State" where
  "AuthService_resendOtp E payload otp now s =
     (case AuthRepository_findByEmail (r_email payload) True now s of
        (None, s1) \<Rightarrow> (Inl (AppErr (notFound ''User not found'' None)), s1)
      | (Some user, s1) \<Rightarrow>
          (let otpExpires = now + 10 * 60 * 1000 in
           case AuthRepository_updateOtp E (r_email payload) otp otpExpires s1 of
             (Inl e, s2) \<Rightarrow> (Inl e, s2)
           | (Inr _, s2) \<Rightarrow>
               (let s3 = AuthRepository_setOtpCache (r_email payload)
                           (otpTypeName (r_type payload)) otp now s2;
                    emailHtml = (if r_type payload = ForgotPassword
                                 then getForgotPasswordEmailTemplate E otp
                                 else getVerificationEmailTemplate E otp);
                    subject = (if r_type payload = ForgotPassword then ''Reset Your Password''
                               else ''Verify Your Email Address'')
                in if sendEmail E (r_email payload) subject emailHtml
                   then (Inr (EmailResponse (r_email payload)), logger LInfo ''OTP email sent'' s3)
                   else (Inl (AppErr (badRequest ''Failed to send OTP email'' None)),
                         logger LError ''Failed to send OTP email'' s3))))"

definition AuthService_forgotPassword ::
  "Env \<Rightarrow> string \<Rightarrow> string \<Rightarrow> nat \<Rightarrow> State \<Rightarrow> (Thrown + Response) \<times> State" where
  "AuthService_forgotPassword E em otp now s =
     (case AuthRepository_findByEmail em True now s of
        (None, s1) \<Rightarrow>
          (Inl (AppErr (notFound ''User not found'' (fieldError ''email'' ''User not found''))), s1)
      | (Some user, s1) \<Rightarrow>
          (let otpExpires = now + 10 * 60 * 1000 in
           case AuthRepository_updateOtp E em otp otpExpires s1 of
             (Inl e, s2) \<Rightarrow> (Inl e, s2)
           | (Inr _, s2) \<Rightarrow>
               (let s3 = AuthRepository_setOtpCache em ''forgotPassword'' otp now s2 in
                if sendEmail E em ''Reset Your Password'' (getForgotPasswordEmailTemplate E otp)
                then (Inr (EmailResponse em), logger LInfo ''Password reset email sent'' s3)
                else (Inl (AppErr (badRequest ''Failed to send password reset email'' None)),
                      logger LError ''Failed to send password reset email'' s3))))"

definition AuthService_resetPassword ::
  "Env \<Rightarrow> string \<Rightarrow> string \<Rightarrow> nat \<Rightarrow> State \<Rightarrow> (Thrown + Response) \<times> State" where
  "AuthService_resetPassword E em pw now s =
     (case AuthRepository_findByEmail em False now s of
        (None, s1) \<Rightarrow>
          (Inl (AppErr (notFound ''User not found'' (fieldError ''email'' ''User not found''))), s1)
      | (Some user, s1) \<Rightarrow>
          (case AuthRepository_updatePassword E em pw s1 of
             (Inl e, s2) \<Rightarrow> (Inl e, s2)
           | (Inr updatedUser, s2) \<Rightarrow>
               (Inr (AuthDto_toResponse updatedUser),
                AuthRepository_deleteOtpCache em ''forgotPassword'' s2)))"

text \<open>
  \<open>findById(decoded.id)\<close> with no \<open>id\<close> claim asks Prisma for a row by an undefined
  key, which the client refuses.
\<close>

definition AuthService_refreshToken ::
  "Env \<Rightarrow> string \<Rightarrow> nat \<Rightarrow> State \<Rightarrow> (Thrown + Response) \<times> State" where
  "AuthService_refreshToken E token now s =
     (if AuthRepository_isTokenBlacklisted token now s
      then (Inl (AppErr (unauthorized ''Token has been revoked'' None)), s)
      else
        (case verifyRefreshToken E token now of
           None \<Rightarrow> (Inl (AppErr (unauthorized ''Invalid or expired refresh token'' None)), s)
         | Some decoded \<Rightarrow>
             (case jwt_id decoded of
                None \<Rightarrow> (Inl (PrismaErr ''PrismaClientValidationError''), s)
              | Some i \<Rightarrow>
                  (case AuthRepository_findById i now s of
                     (None, s1) \<Rightarrow> (Inl (AppErr (unauthorized ''User not found'' None)), s1)
                   | (Some user, s1) \<Rightarrow>
                       if refreshToken user \<noteq> Some token
                       then (Inl (AppErr (unauthorized ''Invalid refresh token'' None)), s1)
                       else if \<not> isActive user \<or> isDeleted user
                       then (Inl (AppErr (forbidden ''Account is deactivated or deleted'' None)), s1)
                       else issueTokens E user now s1))))"

text \<open>
  \<open>logout\<close> calls \<open>verifyRefreshToken\<close> outside any \<open>try\<close>: what it throws leaves the
  function before the refresh token is cleared. \<open>decoded.exp\<close> is falsy when missing or 0.
\<close>

definition AuthService_logout ::
  "Env \<Rightarrow> string \<Rightarrow> string \<Rightarrow> nat \<Rightarrow> State \<Rightarrow> (Thrown + Response) \<times> State" where
  "AuthService_logout E userId token now s =
     (case verifyRefreshToken E token now of
        None \<Rightarrow> (Inl JwtErr, s)
      | Some decoded \<Rightarrow>
          (let s1 = (case jwt_exp decoded of
                       None \<Rightarrow> s
                     | Some e \<Rightarrow>
                         if e \<noteq> 0
                         then (let expiresIn = int e - int (now div 1000) in
                               if expiresIn > 0
                               then AuthRepository_blacklistToken token (nat expiresIn) now s
                               else s)
                         else s)
           in case AuthRepository_updateRefreshToken E userId None s1 of
                (Inl e, s2) \<Rightarrow> (Inl e, s2)
              | (Inr _, s2) \<Rightarrow> (Inr (MessageResponse ''Logged out successfully''), s2)))"

definition AuthService_changePassword ::
  "Env \<Rightarrow> string \<Rightarrow> ChangePasswordInput \<Rightarrow> nat \<Rightarrow> State \<Rightarrow> (Thrown + Response) \<times> State" where
  "AuthService_changePassword E userId payload now s =
     (case AuthRepository_findById userId now s of
        (found, s1) \<Rightarrow>
          (case AuthRepository_findByEmailWithPassword
                  (case found of None \<Rightarrow> [] | Some u \<Rightarrow> email u) s1 of
             None \<Rightarrow> (Inl (AppErr (notFound ''User not found'' None)), s1)
           | Some user \<Rightarrow>
               if user_id user \<noteq> userId
               then (Inl (AppErr (notFound ''User not found'' None)), s1)
               else if \<not> comparePassword E (currentPassword payload) (password user)
               then (Inl (AppErr (badRequest ''Current password is incorrect'' None)), s1)
               else
                 (let hashedPassword = hashPassword E (newPassword payload) in
                  case AuthRepository_updatePassword E (email user) hashedPassword s1 of
                    (Inl e, s2) \<Rightarrow> (Inl e, s2)
                  | (Inr updatedUser, s2) \<Rightarrow> (Inr (AuthDto_toResponse updatedUser), s2))))"

definition AuthService_getMe ::
  "string \<Rightarrow> nat \<Rightarrow> State \<Rightarrow> (Thrown + Response) \<times> State" where
  "AuthService_getMe userId now s =
     (case AuthRepository_findById userId now s of
        (None, s1) \<Rightarrow> (Inl (AppErr (notFound ''User not found'' None)), s1)
      | (Some user, s1) \<Rightarrow> (Inr (AuthDto_toResponse user), s1))"

definition AuthService_updateProfile ::
  "Env \<Rightarrow> string \<Rightarrow> UpdateProfileInput \<Rightarrow> State \<Rightarrow> (Thrown + Response) \<times> State" where
  "AuthService_updateProfile E userId payload s =
     (case AuthRepository_updateProfile E userId
             (noData\<lparr>d_username := up_username payload, d_phone := up_phone payload,
                     d_profilePicture := up_profilePicture payload\<rparr>) s of
        (Inl e, s1) \<Rightarrow> (Inl e, s1)
      | (Inr user, s1) \<Rightarrow> (Inr (AuthDto_toResponse user), s1))"

subsection \<open>Google sign-in, guests\<close>

text \<open>\<open>x || y\<close> and \<open>if (x)\<close> on an optional string: undefined and the empty string
  are falsy.\<close>

definition truthy :: "string option \<Rightarrow> bool" where
  "truthy x = (case x of None \<Rightarrow> False | Some v \<Rightarrow> v \<noteq> [])"

text \<open>\<open>Number.prototype.toString()\<close> on a timestamp: its decimal digits.\<close>

function showNat :: "nat \<Rightarrow> string" where
  "showNat n =
     (if n < 10 then [''0123456789'' ! n]
      else showNat (n div 10) @ [''0123456789'' ! (n mod 10)])"
  by pat_completeness auto
termination
  by (relation "measure (\<lambda>n. n)") auto

declare showNat.simps [simp del]

text \<open>\<open>email.split('@')[0]\<close>.\<close>

definition localPart :: "string \<Rightarrow> string" where
  "localPart em = takeWhile (\<lambda>c. c \<noteq> CHR ''@'') em"

definition verifyFirebaseToken :: "Env \<Rightarrow> string \<Rightarrow> State \<Rightarrow> (Thrown + FirebaseUser) \<times> State" where
  "verifyFirebaseToken E idToken s =
     (case verifyIdToken E idToken of
        None \<Rightarrow>
          (Inl (AppErr (unauthorized ''Invalid or expired Firebase token'' None)),
           logger LError ''Firebase token verification failed'' s)
      | Some decodedToken \<Rightarrow>
          (Inr \<lparr>f_uid = fb_uid decodedToken,
                f_email = (if truthy (fb_email decodedToken) then the (fb_email decodedToken) else []),
                f_emailVerified = orElse (fb_email_verified decodedToken) False,
                f_name = fb_name decodedToken,
                f_picture = fb_picture decodedToken,
                f_phoneNumber = fb_phone_number decodedToken\<rparr>, s))"

text \<open>The \<open>updateData\<close> object \<open>googleAuth\<close> builds for a user it found.\<close>

definition googleUpdateData :: "FirebaseUser \<Rightarrow> User \<Rightarrow> UserData" where
  "googleUpdateData fu user =
     (let d1 = (if truthy (f_picture fu) \<and> f_picture fu \<noteq> profilePicture user
                then noData\<lparr>d_profilePicture := f_picture fu\<rparr> else noData);
          d2 = (if truthy (f_name fu) \<and> f_name fu \<noteq> Some (username user)
                then (if username user = [] \<or> username user = localPart (email user)
                      then d1\<lparr>d_username := f_name fu\<rparr> else d1)
                else d1);
          d3 = (if f_emailVerified fu \<and> \<not> isEmailVerified user
                then d2\<lparr>d_isEmailVerified := Some True\<rparr> else d2)
      in d3)"

definition googleNewUserData :: "FirebaseUser \<Rightarrow> User \<Rightarrow> UserData" where
  "googleNewUserData fu newUser =
     (let d1 = (if f_emailVerified fu \<and> \<not> isEmailVerified newUser
                then noData\<lparr>d_isEmailVerified := Some True\<rparr> else noData);
          d2 = (if truthy (f_picture fu) \<and> f_picture fu \<noteq> profilePicture newUser
                then d1\<lparr>d_profilePicture := f_picture fu\<rparr> else d1)
      in d2)"

definition AuthService_googleAuth ::
  "Env \<Rightarrow> string \<Rightarrow> string option \<Rightarrow> string \<Rightarrow> string \<Rightarrow> nat \<Rightarrow> State
     \<Rightarrow> (Thrown + Response) \<times> State" where
  "AuthService_googleAuth E idToken uname rnd newId now s =
     (case verifyFirebaseToken E idToken s of
        (Inl e, s1) \<Rightarrow> (Inl e, s1)
      | (Inr fu, s1) \<Rightarrow>
          if f_email fu = []
          then (Inl (AppErr (badRequest ''Email is required for Google authentication''
                   (fieldError ''idToken'' ''Email is required for Google authentication''))), s1)
          else
            (case AuthRepository_findByEmail (f_email fu) True now s1 of
               (Some user, s2) \<Rightarrow>
                 if signupMethod user \<noteq> GOOGLE
                 then (Inl (AppErr (conflict
                          ''An account with this email already exists. Please use email/password login.''
                          (fieldError ''email'' ''Account already exists with email/password''))), s2)
                 else
                   (case (if googleUpdateData fu user \<noteq> noData
                          then AuthRepository_updateProfile E (user_id user)
                                 (googleUpdateData fu user) s2
                          else (Inr user, s2)) of
                      (Inl e, s3) \<Rightarrow> (Inl e, s3)
                    | (Inr user', s3) \<Rightarrow>
                        if \<not> isActive user' \<or> isDeleted user'
                        then (Inl (AppErr (forbidden ''Account is deactivated or deleted''
                                 (fieldError ''email'' ''Account is deactivated or deleted''))), s3)
                        else issueTokens E user' now s3)
             | (None, s2) \<Rightarrow>
                 (let generatedUsername =
                        (if truthy uname then the uname
                         else if truthy (f_name fu) then the (f_name fu)
                         else localPart (f_email fu));
                      randomPassword = ''google_'' @ showNat now @ ''_'' @ drop 2 rnd
                  in case AuthRepository_create E
                            \<lparr>c_username = generatedUsername, c_email = f_email fu,
                             c_phone = (if truthy (f_phoneNumber fu) then f_phoneNumber fu else None),
                             c_password = randomPassword, c_signupMethod = GOOGLE,
                             c_isEmailVerified = Some (f_emailVerified fu),
                             c_profilePicture = f_picture fu,
                             c_userType = Some REGISTERED\<rparr> newId now s2 of
                       (Inl e, s3) \<Rightarrow> (Inl e, s3)
                     | (Inr newUser, s3) \<Rightarrow>
                         (case (if googleNewUserData fu newUser \<noteq> noData
                                then AuthRepository_updateProfile E (user_id newUser)
                                       (googleNewUserData fu newUser) s3
                                else (Inr newUser, s3)) of
                            (Inl e, s4) \<Rightarrow> (Inl e, s4)
                          | (Inr finalUser, s4) \<Rightarrow>
                              (case issueTokens E finalUser now s4 of
                                 (Inl e, s5) \<Rightarrow> (Inl e, s5)
                               | (Inr r, s5) \<Rightarrow>
                                   (Inr r, logger LInfo ''Google user created'' s5))))))"

definition AuthService_guestLogin ::
  "Env \<Rightarrow> string option \<Rightarrow> string \<Rightarrow> string \<Rightarrow> string \<Rightarrow> nat \<Rightarrow> State
     \<Rightarrow> (Thrown + Response) \<times> State" where
  "AuthService_guestLogin E uname rnd1 rnd2 newId now s =
     (let timestamp = showNat now;
          randomSuffix = take 7 (drop 2 rnd1);
          guestEmail = ''guest_'' @ timestamp @ ''_'' @ randomSuffix @ ''@guest.local'';
          guestUsername = (if truthy uname then the uname
                           else ''Guest_'' @ drop (length timestamp - 6) timestamp);
          randomPassword = ''guest_'' @ timestamp @ ''_'' @ drop 2 rnd2
      in case AuthRepository_create E
                \<lparr>c_username = guestUsername, c_email = guestEmail, c_phone = None,
                 c_password = randomPassword, c_signupMethod = EMAIL,
                 c_isEmailVerified = Some True, c_profilePicture = None,
                 c_userType = Some GUEST\<rparr> newId now s of
           (Inl e, s1) \<Rightarrow> (Inl e, s1)
         | (Inr guestUser, s1) \<Rightarrow>
             (case issueTokens E guestUser now s1 of
                (Inl e, s2) \<Rightarrow> (Inl e, s2)
              | (Inr r, s2) \<Rightarrow> (Inr r, logger LInfo ''Guest user created'' s2)))"

definition AuthService_convertGuestToRegistered ::
  "Env \<Rightarrow> string \<Rightarrow> ConvertGuestToRegisteredInput \<Rightarrow> string \<Rightarrow> nat \<Rightarrow> State
     \<Rightarrow> (Thrown + Response) \<times> State" where
  "AuthService_convertGuestToRegistered E userId payload otp now s =
     (case AuthRepository_findById userId now s of
        (None, s1) \<Rightarrow> (Inl (AppErr (notFound ''User not found'' None)), s1)
      | (Some user, s1) \<Rightarrow>
          if userType user \<noteq> GUEST
          then (Inl (AppErr (badRequest ''User is already registered''
                               (fieldError ''userType'' ''User is already registered''))), s1)
          else
            (case AuthRepository_findByEmail (cg_email payload) True now s1 of
               (existingUser, s2) \<Rightarrow>
                 if existingUser \<noteq> None \<and> user_id (the existingUser) \<noteq> userId
                 then (Inl (AppErr (conflict ''Email already exists''
                                      (fieldError ''email'' ''Email already exists''))), s2)
                 else
                   (case AuthRepository_updateProfile E userId
                           (noData\<lparr>d_email := Some (cg_email payload),
                                   d_password := Some (cg_password payload),
                                   d_username := Some (if truthy (cg_username payload)
                                                       then the (cg_username payload)
                                                       else username user),
                                   d_signupMethod := Some EMAIL\<rparr>) s2 of
                      (Inl e, s3) \<Rightarrow> (Inl e, s3)
                    | (Inr _, s3) \<Rightarrow>
                        (case prisma_user_update E (ById userId)
                                (noData\<lparr>d_userType := Some REGISTERED,
                                        d_isEmailVerified := Some False\<rparr>) s3 of
                           (Inl e, s4) \<Rightarrow> (Inl e, s4)
                         | (Inr finalUser, s4) \<Rightarrow>
                             (let token = generateTokens E (tokenPayloadOf finalUser) now in
                              case AuthRepository_updateRefreshToken E (user_id finalUser)
                                     (Some (t_refreshToken token)) s4 of
                                (Inl e, s5) \<Rightarrow> (Inl e, s5)
                              | (Inr _, s5) \<Rightarrow>
                                  (case AuthRepository_updateOtp E (cg_email payload) otp
                                          (now + 10 * 60 * 1000) s5 of
                                     (Inl e, s6) \<Rightarrow> (Inl e, s6)
                                   | (Inr _, s6) \<Rightarrow>
                                       (let s7 = AuthRepository_setOtpCache (cg_email payload)
                                                   ''emailVerification'' otp now s6;
                                            s8 = sendVerificationMail E (cg_email payload) otp
                                                   ''Verification email sent after guest conversion'' s7
                                        in (Inr (AuthDto_toLoginResponse finalUser token),
                                            logger LInfo ''Guest converted to registered user''
                                              s8))))))))"

section \<open>The authentication middleware\<close>

record Request =
  authorization :: "string option"
  cookieAccessToken :: "string option"

text \<open>\<open>authHeader?.startsWith('Bearer ') ? authHeader.substring(7) : req.cookies?.accessToken\<close>.\<close>

definition requestToken :: "Request \<Rightarrow> string option" where
  "requestToken req =
     (case authorization req of
        None \<Rightarrow> cookieAccessToken req
      | Some h \<Rightarrow> if take 7 h = ''Bearer '' then Some (drop 7 h) else cookieAccessToken req)"

definition authProjection :: "User \<Rightarrow> AuthUser" where
  "authProjection user =
     \<lparr>a_id = user_id user, a_username = username user, a_email = email user,
      a_role = role user, a_userType = userType user,
      a_isEmailVerified = isEmailVerified user, a_isActive = isActive user\<rparr>"

definition authenticate ::
  "Env \<Rightarrow> Request \<Rightarrow> nat \<Rightarrow> State \<Rightarrow> (Thrown + AuthUser) \<times> State" where
  "authenticate E req now s =
     (if \<not> truthy (requestToken req)
      then (Inl (AppErr (unauthorized ''Authentication required. Please login.'' None)), s)
      else
        (let token = the (requestToken req) in
         if AuthRepository_isTokenBlacklisted token now s
         then (Inl (AppErr (unauthorized ''Token has been revoked. Please login again.'' None)), s)
         else
           (case verifyToken E token now of
              None \<Rightarrow>
                (Inl (AppErr (unauthorized ''Invalid or expired token. Please login again.'' None)),
                 logger LWarn ''Token verification failed'' s)
            | Some decoded \<Rightarrow>
                if \<not> truthy (jwt_id decoded)
                then (Inl (AppErr (unauthorized ''Invalid token payload.'' None)), s)
                else
                  (let userId = the (jwt_id decoded);
                       cacheKey = makeKey [''auth'', ''user'', userId]
                   in case cacheGetAuthUser cacheKey now s of
                        Some cachedUser \<Rightarrow> (Inr cachedUser, logger LDebug ''User authenticated'' s)
                      | None \<Rightarrow>
                          (case AuthRepository_findById userId now s of
                             (None, s1) \<Rightarrow>
                               (Inl (AppErr (unauthorized ''User not found. Please login again.''
                                               None)), s1)
                           | (Some user, s1) \<Rightarrow>
                               if \<not> isActive user \<or> isDeleted user
                               then (Inl (AppErr (forbidden ''Account is deactivated or deleted.''
                                                    None)), s1)
                               else if \<not> isEmailVerified user \<and> userType user \<noteq> GUEST
                               then (Inl (AppErr (unauthorized
                                        ''Please verify your email before accessing this resource.''
                                        None)), s1)
                               else
                                 (Inr (authProjection user),
                                  logger LDebug ''User authenticated''
                                    (cacheSet cacheKey (CAuthUser (authProjection user))
                                       USER_MIDDLEWARE_CACHE_TTL now s1)))))))"

section \<open>The operations as one entry point\<close>

text \<open>
  The static methods of \<open>AuthService\<close> that the controller calls, one constructor per
  method with its arguments and the values it draws.
\<close>

datatype AuthServiceCall =
  CallSignup SignupInput string string
  | CallLogin LoginInput
  | CallVerifyOtp VerifyOtpInput
  | CallResendOtp ResendOtpInput string
  | CallForgotPassword string string
  | CallResetPassword string string
  | CallRefreshToken string
  | CallLogout string string
  | CallChangePassword string ChangePasswordInput
  | CallGetMe string
  | CallUpdateProfile string UpdateProfileInput
  | CallGoogleAuth string "string option" string string
  | CallGuestLogin "string option" string string string
  | CallConvertGuestToRegistered string ConvertGuestToRegisteredInput string

fun AuthService_call ::
  "Env \<Rightarrow> AuthServiceCall \<Rightarrow> nat \<Rightarrow> State \<Rightarrow> (Thrown + Response) \<times> State" where
  "AuthService_call E (CallSignup payload otp newId) now s = AuthService_signup E payload otp newId now s"
| "AuthService_call E (CallLogin payload) now s = AuthService_login E payload now s"
| "AuthService_call E (CallVerifyOtp payload) now s = AuthService_verifyOtp E payload now s"
| "AuthService_call E (CallResendOtp payload otp) now s = AuthService_resendOtp E payload otp now s"
| "AuthService_call E (CallForgotPassword em otp) now s = AuthService_forgotPassword E em otp now s"
| "AuthService_call E (CallResetPassword em pw) now s = AuthService_resetPassword E em pw now s"
| "AuthService_call E (CallRefreshToken token) now s = AuthService_refreshToken E token now s"
| "AuthService_call E (CallLogout userId token) now s = AuthService_logout E userId token now s"
| "AuthService_call E (CallChangePassword userId payload) now s =
     AuthService_changePassword E userId payload now s"
| "AuthService_call E (CallGetMe userId) now s = AuthService_getMe userId now s"
| "AuthService_call E (CallUpdateProfile userId payload) now s =
     AuthService_updateProfile E userId payload s"
| "AuthService_call E (CallGoogleAuth idToken uname rnd newId) now s =
     AuthService_googleAuth E idToken uname rnd newId now s"
| "AuthService_call E (CallGuestLogin uname rnd1 rnd2 newId) now s =
     AuthService_guestLogin E uname rnd1 rnd2 newId now s"
| "AuthService_call E (CallConvertGuestToRegistered userId payload otp) now s =
     AuthService_convertGuestToRegistered E userId payload otp now s"

text \<open>The user representation of a response, when it has one, and what it is to be
  stripped of the credential material.\<close>

fun responseUser :: "Response \<Rightarrow> SafeUser option" where
  "responseUser (UserResponse u) = Some u"
| "responseUser (LoginResponse u token) = Some u"
| "responseUser (VerifiedResponse b em) = None"
| "responseUser (EmailResponse em) = None"
| "responseUser (MessageResponse m) = None"

definition stripped :: "SafeUser \<Rightarrow> bool" where
  "stripped u =
     (s_password u = None \<and> s_otpCode u = None \<and> s_otpExpiresAt u = None
      \<and> s_refreshToken u = None)"

section \<open>Predicates of the properties\<close>

text \<open>
  When the check at the head of \<open>verifyOtp\<close> lets a code through, said without the
  code's control flow: the code is not empty, and it is the live cache entry for the
  email and the type, or it is the code stored on the user with that email and the
  stored expiry is not before the time of the call. The stored code has no type.
\<close>

definition otpAccepted :: "VerifyOtpInput \<Rightarrow> nat \<Rightarrow> State \<Rightarrow> bool" where
  "otpAccepted p now s =
     (v_otp p \<noteq> []
      \<and> (AuthRepository_getOtpCache (v_email p) (otpTypeName (v_type p)) now s = Some (v_otp p)
         \<or> (case prisma_user_findUnique (ByEmail (v_email p)) s of
               None \<Rightarrow> False
             | Some u \<Rightarrow>
                 otpCode u = Some (v_otp p)
                 \<and> (case otpExpiresAt u of None \<Rightarrow> False | Some t \<Rightarrow> now \<le> t))))"

text \<open>Every entry of the user cache under an id holds a user of that id: what
  \<open>create\<close> and \<open>findById\<close>, the only writers of those keys, store.\<close>

definition userCacheKeyed :: "State \<Rightarrow> bool" where
  "userCacheKeyed s =
     (\<forall>i u t. cache s (makeKey [''user'', i]) = Some (CUser u, t) \<longrightarrow> user_id u = i)"

text \<open>The operations whose result holds a user representation; \<open>verifyOtp\<close> does for
  the type emailVerification.\<close>

fun returnsUser :: "AuthServiceCall \<Rightarrow> bool" where
  "returnsUser (CallSignup payload otp newId) = True"
| "returnsUser (CallLogin payload) = True"
| "returnsUser (CallVerifyOtp payload) = (v_type payload = EmailVerification)"
| "returnsUser (CallResendOtp payload otp) = False"
| "returnsUser (CallForgotPassword em otp) = False"
| "returnsUser (CallResetPassword em pw) = True"
| "returnsUser (CallRefreshToken token) = True"
| "returnsUser (CallLogout userId token) = False"
| "returnsUser (CallChangePassword userId payload) = True"
| "returnsUser (CallGetMe userId) = True"
| "returnsUser (CallUpdateProfile userId payload) = True"
| "returnsUser (CallGoogleAuth idToken uname rnd newId) = True"
| "returnsUser (CallGuestLogin uname rnd1 rnd2 newId) = True"
| "returnsUser (CallConvertGuestToRegistered userId payload otp) = True"

text \<open>A call fails with a given status: it throws an \<open>AppError\<close> of that status.\<close>

definition failsWith :: "HttpStatusCode \<Rightarrow> Thrown + 'a \<Rightarrow> bool" where
  "failsWith st r = (case r of Inl (AppErr e) \<Rightarrow> statusCode e = st | _ \<Rightarrow> False)"

section \<open>A sample environment and sample states\<close>

text \<open>
  A small concrete environment to run the model on: a hash that prefixes its input, a
  refresh token that carries the user's id after a prefix naming the period it was
  issued in, a mail transport that delivers.
\<close>

definition sampleEnv :: Env where
  "sampleEnv =
     \<lparr>hashPassword = (\<lambda>p. ''$2b$'' @ p),
      comparePassword = (\<lambda>p h. h = ''$2b$'' @ p),
      generateTokens = (\<lambda>p t.
        \<lparr>t_accessToken = ''access:'' @ tp_id p,
         t_refreshToken = (if t < 200000 then ''r1:'' else ''r2:'') @ tp_id p\<rparr>),
      decodeRefreshToken = (\<lambda>tok.
        if take 3 tok = ''r1:'' then Some \<lparr>jwt_id = Some (drop 3 tok), jwt_exp = Some 900\<rparr>
        else if take 3 tok = ''r2:'' then Some \<lparr>jwt_id = Some (drop 3 tok), jwt_exp = Some 1100\<rparr>
        else None),
      decodeAccessToken = (\<lambda>tok.
        if take 7 tok = ''access:'' then Some \<lparr>jwt_id = Some (drop 7 tok), jwt_exp = Some 1100\<rparr>
        else None),
      verifyIdToken = (\<lambda>tok. None),
      sendEmail = (\<lambda>to subject html. True),
      getVerificationEmailTemplate = (\<lambda>otp. ''Your verification code: '' @ otp),
      getForgotPasswordEmailTemplate = (\<lambda>otp. ''Your reset code: '' @ otp)\<rparr>"

definition alice :: User where
  "alice =
     \<lparr>user_id = ''u1'', username = ''alice'', email = ''a@x.com'', phone = None,
      password = ''$2b$Secret123!'', role = USER, userType = REGISTERED, signupMethod = EMAIL,
      isEmailVerified = True, isActive = True, isDeleted = False, otpCode = None,
      otpExpiresAt = None, refreshToken = None, profilePicture = None\<rparr>"

definition emptyState :: State where
  "emptyState = \<lparr>users = [], cache = Map.empty, logs = []\<rparr>"

definition aliceState :: State where
  "aliceState = \<lparr>users = [alice], cache = Map.empty, logs = []\<rparr>"

text \<open>No user at all, and a code staged in the cache for a password reset.\<close>

definition stagedOnlyState :: State where
  "stagedOnlyState =
     \<lparr>users = [],
      cache = Map.empty([''otp'', ''forgotPassword'', ''a@x.com''] \<mapsto> (CString ''123456'', 700000)),
      logs = []\<rparr>"

text \<open>A deactivated user beside an active one.\<close>

definition bob :: User where
  "bob = alice\<lparr>user_id := ''u2'', username := ''bob'', email := ''b@x.com'', isActive := False\<rparr>"

definition bobState :: State where
  "bobState = \<lparr>users = [alice, bob], cache = Map.empty, logs = []\<rparr>"

text \<open>Alice holding a refresh token of the first period, which expires at second 900.\<close>

definition tokenState :: State where
  "tokenState =
     \<lparr>users = [alice\<lparr>refreshToken := Some ''r1:u1''\<rparr>], cache = Map.empty, logs = []\<rparr>"

text \<open>A signup, and the row it creates under the sample environment.\<close>

definition carolSignup :: SignupInput where
  "carolSignup =
     \<lparr>su_username = ''carol'', su_email = ''c@x.com'', su_phone = None,
      su_password = ''Secret123!'', su_signupMethod = EMAIL\<rparr>"

definition carol :: User where
  "carol =
     \<lparr>user_id = ''u3'', username = ''carol'', email = ''c@x.com'', phone = None,
      password = ''$2b$Secret123!'', role = USER, userType = REGISTERED, signupMethod = EMAIL,
      isEmailVerified = False, isActive = True, isDeleted = False, otpCode = None,
      otpExpiresAt = None, refreshToken = None, profilePicture = None\<rparr>"

text \<open>A soft-deleted user, the only one with that email.\<close>

definition dave :: User where
  "dave = alice\<lparr>user_id := ''u4'', username := ''dave'', email := ''d@x.com'', isDeleted := True\<rparr>"

definition deletedState :: State where
  "deletedState = \<lparr>users = [dave], cache = Map.empty, logs = []\<rparr>"

text \<open>The states a signup of carol and a forgotPassword of alice leave, at time 100000
  with the code 123456.\<close>

definition signedUpState :: State where
  "signedUpState = snd (AuthService_signup sampleEnv carolSignup ''123456'' ''u3'' 100000 emptyState)"

definition resetStagedState :: State where
  "resetStagedState = snd (AuthService_forgotPassword sampleEnv ''a@x.com'' ''123456'' 100000 aliceState)"

text \<open>
  A guest logs in at time 100000, calls a protected route at 110000, converts the
  account to a registered one at 120000.
\<close>

definition guestRequest :: Request where
  "guestRequest = \<lparr>authorization = Some ''Bearer access:g1'', cookieAccessToken = None\<rparr>"

definition guestState :: State where
  "guestState =
     snd (AuthService_guestLogin sampleEnv None ''0.abcdefghijk'' ''0.zyxwvutsrqp'' ''g1'' 100000
            emptyState)"

definition guestSeenState :: State where
  "guestSeenState = snd (authenticate sampleEnv guestRequest 110000 guestState)"

definition convertedState :: State where
  "convertedState =
     snd (AuthService_convertGuestToRegistered sampleEnv ''g1''
            \<lparr>cg_email = ''g@x.com'', cg_password = ''Secret123!'', cg_username = None\<rparr>
            ''123456'' 120000 guestSeenState)"

section \<open>Auxiliary lemmas\<close>

lemma sampleEnv_simps:
  "hashPassword sampleEnv p = ''$2b$'' @ p"
  "comparePassword sampleEnv p h = (h = ''$2b$'' @ p)"
  "generateTokens sampleEnv tp t =
     \<lparr>t_accessToken = ''access:'' @ tp_id tp,
      t_refreshToken = (if t < 200000 then ''r1:'' else ''r2:'') @ tp_id tp\<rparr>"
  "decodeRefreshToken sampleEnv tok =
     (if take 3 tok = ''r1:'' then Some \<lparr>jwt_id = Some (drop 3 tok), jwt_exp = Some 900\<rparr>
      else if take 3 tok = ''r2:'' then Some \<lparr>jwt_id = Some (drop 3 tok), jwt_exp = Some 1100\<rparr>
      else None)"
  "decodeAccessToken sampleEnv tok =
     (if take 7 tok = ''access:'' then Some \<lparr>jwt_id = Some (drop 7 tok), jwt_exp = Some 1100\<rparr>
      else None)"
  "verifyIdToken sampleEnv tok = None"
  "sendEmail sampleEnv a b c = True"
  "getVerificationEmailTemplate sampleEnv otp = ''Your verification code: '' @ otp"
  "getForgotPasswordEmailTemplate sampleEnv otp = ''Your reset code: '' @ otp"
  by (simp_all add: sampleEnv_def)

lemmas cache_defs =
  cacheGet_def cacheSet_def cacheDel_def cacheGetUser_def cacheGetString_def
  cacheGetAuthUser_def makeKey_def USER_CACHE_TTL_def OTP_CACHE_TTL_def
  USER_MIDDLEWARE_CACHE_TTL_def

lemmas prisma_defs =
  prisma_user_findUnique_def prisma_user_update_def prisma_user_create_def applyData_def
  hookData_def hashHook_def noData_def orElse_def uniqueViolation_def

lemmas repo_defs =
  AuthRepository_create_def AuthRepository_findByEmail_def AuthRepository_findById_def
  AuthRepository_findByEmailWithPassword_def AuthRepository_updateOtp_def
  AuthRepository_verifyEmail_def AuthRepository_updatePassword_def
  AuthRepository_updateRefreshToken_def AuthRepository_updateProfile_def
  AuthRepository_setOtpCache_def AuthRepository_getOtpCache_def
  AuthRepository_deleteOtpCache_def AuthRepository_blacklistToken_def
  AuthRepository_isTokenBlacklisted_def

lemmas error_defs =
  badRequest_def unauthorized_def forbidden_def notFound_def conflict_def fieldError_def

lemmas dto_defs =
  AuthDto_toResponse_def AuthDto_toSignupResponse_def AuthDto_toLoginResponse_def safeData_def

subsection \<open>Finding a row after an update\<close>

lemma find_Some_holds: "find P xs = Some x \<Longrightarrow> P x"
  by (induction xs) (auto split: if_splits)

lemma find_updateFirst:
  assumes "find Q xs = Some u0" and "P u' = P u0"
  shows "find P (updateFirst Q (\<lambda>_. u') xs)
         = map_option (\<lambda>y. if y = u0 then u' else y) (find P xs)"
  using assms
proof (induction xs)
  case Nil
  then show ?case by simp
next
  case (Cons x xs)
  show ?case
  proof (cases "Q x")
    case True
    with Cons.prems have x: "x = u0" by simp
    show ?thesis
    proof (cases "P u0")
      case True
      with x \<open>Q x\<close> Cons.prems show ?thesis by simp
    next
      case False
      have "\<And>y. find P xs = Some y \<Longrightarrow> y \<noteq> u0"
        using False find_Some_holds by metis
      then have "map_option (\<lambda>y. if y = u0 then u' else y) (find P xs) = find P xs"
        by (cases "find P xs") auto
      with x \<open>Q x\<close> False Cons.prems show ?thesis by simp
    qed
  next
    case False
    with Cons.prems have f: "find Q xs = Some u0" by simp
    then have "Q u0" by (rule find_Some_holds)
    with False have "x \<noteq> u0" by auto
    with False Cons.IH [OF f Cons.prems(2)] show ?thesis by simp
  qed
qed

lemma prisma_user_update_Inr:
  "prisma_user_update E wh d s = (Inr u', s') \<Longrightarrow>
   \<exists>u0. find (matches wh) (users s) = Some u0 \<and> u' = applyData (hookData E d) u0
        \<and> s' = s\<lparr>users := updateFirst (matches wh) (\<lambda>_. u') (users s)\<rparr>"
  by (auto simp: prisma_user_update_def Let_def split: option.splits if_splits)

lemma prisma_user_update_same_keys:
  assumes "find (matches wh) (users s) = Some u0" and "d_email d = None" and "d_phone d = None"
  shows "prisma_user_update E wh d s
         = (Inr (applyData (hookData E d) u0),
            s\<lparr>users := updateFirst (matches wh) (\<lambda>_. applyData (hookData E d) u0) (users s)\<rparr>)"
  using assms
  by (simp add: prisma_user_update_def Let_def uniqueViolation_def applyData_def hookData_def
      orElse_def split: option.splits)

lemma prisma_update_find_other:
  assumes upd: "prisma_user_update E wh d s = (Inr u', s')"
    and u0: "prisma_user_findUnique wh s = Some u0"
    and keys: "matches wh2 u' = matches wh2 u0"
  shows "prisma_user_findUnique wh2 s'
         = map_option (\<lambda>y. if y = u0 then u' else y) (prisma_user_findUnique wh2 s)"
proof -
  from prisma_user_update_Inr [OF upd] u0
  have s': "users s' = updateFirst (matches wh) (\<lambda>_. u') (users s)"
    by (auto simp: prisma_user_findUnique_def)
  from u0 have f: "find (matches wh) (users s) = Some u0"
    by (simp only: prisma_user_findUnique_def)
  show ?thesis
    unfolding prisma_user_findUnique_def s' by (rule find_updateFirst [OF f keys])
qed

lemma prisma_update_find_same:
  assumes upd: "prisma_user_update E wh d s = (Inr u', s')" and m: "matches wh u'"
  shows "prisma_user_findUnique wh s' = Some u'"
proof -
  from prisma_user_update_Inr [OF upd] obtain u0 where
    u0: "prisma_user_findUnique wh s = Some u0"
    by (auto simp: prisma_user_findUnique_def)
  then have "matches wh u0"
    unfolding prisma_user_findUnique_def by (rule find_Some_holds)
  with m have "matches wh u' = matches wh u0" by simp
  from prisma_update_find_other [OF upd u0 this] u0 show ?thesis by simp
qed

lemma updatePassword_Inr:
  assumes "AuthRepository_updatePassword E em pw s = (Inr u', s')" and "pw \<noteq> []"
  shows "\<exists>u0. prisma_user_findUnique (ByEmail em) s = Some u0
           \<and> u' = u0\<lparr>password := hashPassword E pw, otpCode := None, otpExpiresAt := None\<rparr>
           \<and> prisma_user_findUnique (ByEmail em) s' = Some u'"
proof -
  let ?d = "noData\<lparr>d_password := Some pw, d_otpCode := Some None, d_otpExpiresAt := Some None\<rparr>"
  from assms(1) obtain s1 where
    upd: "prisma_user_update E (ByEmail em) ?d s = (Inr u', s1)"
    by (auto simp: AuthRepository_updatePassword_def split: prod.splits sum.splits)
  from assms(1) upd have s': "users s' = users s1"
    by (auto simp: AuthRepository_updatePassword_def cacheDel_def)
  from prisma_user_update_Inr [OF upd] obtain u0 where
    f: "prisma_user_findUnique (ByEmail em) s = Some u0"
    and u': "u' = applyData (hookData E ?d) u0"
    by (auto simp: prisma_user_findUnique_def)
  have shape: "u' = u0\<lparr>password := hashPassword E pw, otpCode := None, otpExpiresAt := None\<rparr>"
    using u' assms(2) by (simp add: applyData_def hookData_def hashHook_def noData_def orElse_def)
  from f have "matches (ByEmail em) u0"
    unfolding prisma_user_findUnique_def by (rule find_Some_holds)
  with shape have "matches (ByEmail em) u'" by simp
  from prisma_update_find_same [OF upd this] s'
  have "prisma_user_findUnique (ByEmail em) s' = Some u'"
    by (simp add: prisma_user_findUnique_def)
  with f shape show ?thesis by blast
qed

subsection \<open>What the mail transport cannot change\<close>

lemma hashHook_mail: "hashHook (E\<lparr>sendEmail := f\<rparr>) p = hashHook E p"
  by (simp add: hashHook_def)

lemma hookData_mail: "hookData (E\<lparr>sendEmail := f\<rparr>) d = hookData E d"
  by (simp add: hookData_def hashHook_mail split: option.splits)

lemma prisma_user_update_mail: "prisma_user_update (E\<lparr>sendEmail := f\<rparr>) = prisma_user_update E"
  unfolding fun_eq_iff prisma_user_update_def hookData_mail by simp

lemma prisma_user_create_mail: "prisma_user_create (E\<lparr>sendEmail := f\<rparr>) = prisma_user_create E"
  unfolding fun_eq_iff prisma_user_create_def hashHook_mail by simp

lemma repo_mail:
  "AuthRepository_create (E\<lparr>sendEmail := f\<rparr>) = AuthRepository_create E"
  "AuthRepository_updateOtp (E\<lparr>sendEmail := f\<rparr>) = AuthRepository_updateOtp E"
  "AuthRepository_updateRefreshToken (E\<lparr>sendEmail := f\<rparr>) = AuthRepository_updateRefreshToken E"
  "AuthRepository_updateProfile (E\<lparr>sendEmail := f\<rparr>) = AuthRepository_updateProfile E"
  unfolding fun_eq_iff AuthRepository_create_def AuthRepository_updateOtp_def
      AuthRepository_updateRefreshToken_def AuthRepository_updateProfile_def
      prisma_user_update_mail prisma_user_create_mail by simp_all

lemma logger_fields [simp]:
  "users (logger l m s) = users s" "cache (logger l m s) = cache s"
  "logs (logger l m s) = logs s @ [(l, m)]"
  by (simp_all add: logger_def)

lemma sendVerificationMail_fields [simp]:
  "users (sendVerificationMail E em otp m s) = users s"
  "cache (sendVerificationMail E em otp m s) = cache s"
  by (simp_all add: sendVerificationMail_def)

lemma signup_mail:
  "fst (AuthService_signup (E\<lparr>sendEmail := f\<rparr>) p otp i now s) = fst (AuthService_signup E p otp i now s)
   \<and> users (snd (AuthService_signup (E\<lparr>sendEmail := f\<rparr>) p otp i now s)) = users (snd (AuthService_signup E p otp i now s))
   \<and> cache (snd (AuthService_signup (E\<lparr>sendEmail := f\<rparr>) p otp i now s)) = cache (snd (AuthService_signup E p otp i now s))"
  by (simp add: AuthService_signup_def repo_mail Let_def split: prod.split option.split sum.split)

lemma convert_mail:
  "fst (AuthService_convertGuestToRegistered (E\<lparr>sendEmail := f\<rparr>) i p otp now s) = fst (AuthService_convertGuestToRegistered E i p otp now s)
  \<and> users (snd (AuthService_convertGuestToRegistered (E\<lparr>sendEmail := f\<rparr>) i p otp now s)) = users (snd (AuthService_convertGuestToRegistered E i p otp now s))
  \<and> cache (snd (AuthService_convertGuestToRegistered (E\<lparr>sendEmail := f\<rparr>) i p otp now s)) = cache (snd (AuthService_convertGuestToRegistered E i p otp now s))"
proof -
  note defs = AuthService_convertGuestToRegistered_def repo_mail prisma_user_update_mail Let_def
  obtain fu s1 where a: "AuthRepository_findById i now s = (fu, s1)"
    by (cases "AuthRepository_findById i now s")
  show ?thesis
  proof (cases fu)
    case None
    with a show ?thesis by (simp add: defs)
  next
    case (Some user)
    obtain ex s2 where b: "AuthRepository_findByEmail (cg_email p) True now s1 = (ex, s2)"
      by (cases "AuthRepository_findByEmail (cg_email p) True now s1")
    obtain r3 s3 where c: "AuthRepository_updateProfile E i
        (noData\<lparr>d_email := Some (cg_email p), d_password := Some (cg_password p),
                d_username := Some (if truthy (cg_username p) then the (cg_username p)
                                    else username user),
                d_signupMethod := Some EMAIL\<rparr>) s2 = (r3, s3)"
      by (cases "AuthRepository_updateProfile E i
        (noData\<lparr>d_email := Some (cg_email p), d_password := Some (cg_password p),
                d_username := Some (if truthy (cg_username p) then the (cg_username p)
                                    else username user),
                d_signupMethod := Some EMAIL\<rparr>) s2")
    show ?thesis
    proof (cases r3)
      case (Inl e)
      with a Some b c show ?thesis by (simp add: defs)
    next
      case (Inr u3)
      obtain r4 s4 where d: "prisma_user_update E (ById i)
          (noData\<lparr>d_userType := Some REGISTERED, d_isEmailVerified := Some False\<rparr>) s3 = (r4, s4)"
        by (cases "prisma_user_update E (ById i)
          (noData\<lparr>d_userType := Some REGISTERED, d_isEmailVerified := Some False\<rparr>) s3")
      show ?thesis
      proof (cases r4)
        case (Inl e)
        with a Some b c Inr d show ?thesis by (simp add: defs)
      next
        case r4: (Inr finalUser)
        obtain r5 s5 where e: "AuthRepository_updateRefreshToken E (user_id finalUser)
            (Some (t_refreshToken (generateTokens E (tokenPayloadOf finalUser) now))) s4 = (r5, s5)"
          by (cases "AuthRepository_updateRefreshToken E (user_id finalUser)
            (Some (t_refreshToken (generateTokens E (tokenPayloadOf finalUser) now))) s4")
        show ?thesis
        proof (cases r5)
          case (Inl e')
          with a Some b c Inr d r4 e show ?thesis by (simp add: defs)
        next
          case r5: (Inr u5)
          obtain r6 s6 where g: "AuthRepository_updateOtp E (cg_email p) otp (now + 600000) s5 = (r6, s6)"
            by (cases "AuthRepository_updateOtp E (cg_email p) otp (now + 600000) s5")
          show ?thesis
          proof (cases r6)
            case (Inl e')
            with a Some b c Inr d r4 e r5 g show ?thesis by (simp add: defs)
          next
            case r6: (Inr u6)
            with a Some b c Inr d r4 e r5 g show ?thesis by (simp add: defs)
          qed
        qed
      qed
    qed
  qed
qed

lemma resendOtp_mail:
  assumes "fst (AuthService_resendOtp (E\<lparr>sendEmail := (\<lambda>a b c. True)\<rparr>) p otp now s) = Inr r"
  shows "fst (AuthService_resendOtp (E\<lparr>sendEmail := (\<lambda>a b c. False)\<rparr>) p otp now s)
         = Inl (AppErr (badRequest ''Failed to send OTP email'' None))"
proof -
  obtain found s1 where a: "AuthRepository_findByEmail (r_email p) True now s = (found, s1)"
    by (cases "AuthRepository_findByEmail (r_email p) True now s")
  obtain r2 s2 where b: "AuthRepository_updateOtp E (r_email p) otp (now + 600000) s1 = (r2, s2)"
    by (cases "AuthRepository_updateOtp E (r_email p) otp (now + 600000) s1")
  show ?thesis
    using assms a b
    by (cases found; cases r2) (simp_all add: AuthService_resendOtp_def repo_mail Let_def)
qed

lemma forgotPassword_mail:
  assumes "fst (AuthService_forgotPassword (E\<lparr>sendEmail := (\<lambda>a b c. True)\<rparr>) em otp now s) = Inr r"
  shows "fst (AuthService_forgotPassword (E\<lparr>sendEmail := (\<lambda>a b c. False)\<rparr>) em otp now s)
         = Inl (AppErr (badRequest ''Failed to send password reset email'' None))"
proof -
  obtain found s1 where a: "AuthRepository_findByEmail em True now s = (found, s1)"
    by (cases "AuthRepository_findByEmail em True now s")
  obtain r2 s2 where b: "AuthRepository_updateOtp E em otp (now + 600000) s1 = (r2, s2)"
    by (cases "AuthRepository_updateOtp E em otp (now + 600000) s1")
  show ?thesis
    using assms a b
    by (cases found; cases r2) (simp_all add: AuthService_forgotPassword_def repo_mail Let_def)
qed

lemma signup_mail_logged:
  assumes "fst (AuthService_signup (E\<lparr>sendEmail := (\<lambda>a b c. False)\<rparr>) p otp i now s) = Inr r"
  shows "(LError, ''Failed to send verification email'')
         \<in> set (logs (snd (AuthService_signup (E\<lparr>sendEmail := (\<lambda>a b c. False)\<rparr>) p otp i now s)))"
proof -
  obtain found s1 where a: "AuthRepository_findByEmail (su_email p) True now s = (found, s1)"
    by (cases "AuthRepository_findByEmail (su_email p) True now s")
  obtain r2 s2 where b: "AuthRepository_create E
      \<lparr>c_username = su_username p, c_email = su_email p, c_phone = su_phone p,
       c_password = su_password p, c_signupMethod = su_signupMethod p, c_isEmailVerified = None,
       c_profilePicture = None, c_userType = None\<rparr> i now s1 = (r2, s2)"
    by (cases "AuthRepository_create E
      \<lparr>c_username = su_username p, c_email = su_email p, c_phone = su_phone p,
       c_password = su_password p, c_signupMethod = su_signupMethod p, c_isEmailVerified = None,
       c_profilePicture = None, c_userType = None\<rparr> i now s1")
  obtain r3 s3 where c: "AuthRepository_updateOtp E (su_email p) otp (now + 600000) s2 = (r3, s3)"
    by (cases "AuthRepository_updateOtp E (su_email p) otp (now + 600000) s2")
  show ?thesis
    using assms a b c
    by (cases found; cases r2; cases r3)
       (simp_all add: AuthService_signup_def repo_mail Let_def sendVerificationMail_def)
qed

lemma convert_mail_logged:
  assumes ok: "fst (AuthService_convertGuestToRegistered (E\<lparr>sendEmail := (\<lambda>a b c. False)\<rparr>)
                      i p otp now s) = Inr r"
  shows "(LError, ''Failed to send verification email'')
         \<in> set (logs (snd (AuthService_convertGuestToRegistered
                              (E\<lparr>sendEmail := (\<lambda>a b c. False)\<rparr>) i p otp now s)))"
proof -
  note defs = AuthService_convertGuestToRegistered_def repo_mail prisma_user_update_mail Let_def
    sendVerificationMail_def
  obtain fu s1 where a: "AuthRepository_findById i now s = (fu, s1)"
    by (cases "AuthRepository_findById i now s")
  show ?thesis
  proof (cases fu)
    case None
    with ok a show ?thesis by (auto simp: defs split: if_splits)
  next
    case (Some user)
    obtain ex s2 where b: "AuthRepository_findByEmail (cg_email p) True now s1 = (ex, s2)"
      by (cases "AuthRepository_findByEmail (cg_email p) True now s1")
    obtain r3 s3 where c: "AuthRepository_updateProfile E i
        (noData\<lparr>d_email := Some (cg_email p), d_password := Some (cg_password p),
                d_username := Some (if truthy (cg_username p) then the (cg_username p)
                                    else username user),
                d_signupMethod := Some EMAIL\<rparr>) s2 = (r3, s3)"
      by (cases "AuthRepository_updateProfile E i
        (noData\<lparr>d_email := Some (cg_email p), d_password := Some (cg_password p),
                d_username := Some (if truthy (cg_username p) then the (cg_username p)
                                    else username user),
                d_signupMethod := Some EMAIL\<rparr>) s2")
    show ?thesis
    proof (cases r3)
      case (Inl e)
      with ok a Some b c show ?thesis by (auto simp: defs split: if_splits)
    next
      case (Inr u3)
      obtain r4 s4 where d: "prisma_user_update E (ById i)
          (noData\<lparr>d_userType := Some REGISTERED, d_isEmailVerified := Some False\<rparr>) s3 = (r4, s4)"
        by (cases "prisma_user_update E (ById i)
          (noData\<lparr>d_userType := Some REGISTERED, d_isEmailVerified := Some False\<rparr>) s3")
      show ?thesis
      proof (cases r4)
        case (Inl e)
        with ok a Some b c Inr d show ?thesis by (auto simp: defs split: if_splits)
      next
        case r4: (Inr finalUser)
        obtain r5 s5 where e: "AuthRepository_updateRefreshToken E (user_id finalUser)
            (Some (t_refreshToken (generateTokens E (tokenPayloadOf finalUser) now))) s4 = (r5, s5)"
          by (cases "AuthRepository_updateRefreshToken E (user_id finalUser)
            (Some (t_refreshToken (generateTokens E (tokenPayloadOf finalUser) now))) s4")
        show ?thesis
        proof (cases r5)
          case (Inl e')
          with ok a Some b c Inr d r4 e show ?thesis by (auto simp: defs split: if_splits)
        next
          case r5: (Inr u5)
          obtain r6 s6 where g: "AuthRepository_updateOtp E (cg_email p) otp (now + 600000) s5 = (r6, s6)"
            by (cases "AuthRepository_updateOtp E (cg_email p) otp (now + 600000) s5")
          show ?thesis
          proof (cases r6)
            case (Inl e')
            with ok a Some b c Inr d r4 e r5 g show ?thesis by (auto simp: defs split: if_splits)
          next
            case r6: (Inr u6)
            with ok a Some b c Inr d r4 e r5 g show ?thesis by (auto simp: defs split: if_splits)
          qed
        qed
      qed
    qed
  qed
qed

subsection \<open>What the repository throws, and what a lookup leaves\<close>

lemma prisma_user_update_Inl:
  "prisma_user_update E wh d s = (Inl e, s') \<Longrightarrow> (\<exists>c. e = PrismaErr c) \<and> s' = s"
  by (auto simp: prisma_user_update_def Let_def split: option.splits if_splits)

lemma prisma_user_create_Inl:
  "prisma_user_create E row s = (Inl e, s') \<Longrightarrow> (\<exists>c. e = PrismaErr c) \<and> s' = s"
  by (auto simp: prisma_user_create_def Let_def split: if_splits)

lemma create_Inl:
  "AuthRepository_create E payload newId now s = (Inl e, s') \<Longrightarrow> (\<exists>c. e = PrismaErr c) \<and> s' = s"
  by (auto simp: AuthRepository_create_def Let_def split: prod.splits sum.splits
      dest: prisma_user_create_Inl)

lemma updateOtp_Inl:
  "AuthRepository_updateOtp E em otp t s = (Inl e, s') \<Longrightarrow> (\<exists>c. e = PrismaErr c) \<and> s' = s"
  by (auto simp: AuthRepository_updateOtp_def split: prod.splits sum.splits
      dest: prisma_user_update_Inl)

lemma findByEmail_users [simp]: "users (snd (AuthRepository_findByEmail em uc now s)) = users s"
  by (simp add: AuthRepository_findByEmail_def cacheSet_def split: option.splits)

lemma findByEmail_found:
  "(fst (AuthRepository_findByEmail em True now s) \<noteq> None)
   = (cacheGetUser (makeKey [''user'', ''email'', em]) now s \<noteq> None
      \<or> prisma_user_findUnique (ByEmail em) s \<noteq> None)"
  by (simp add: AuthRepository_findByEmail_def split: option.splits)

lemma findByEmail_uncached [simp]:
  "AuthRepository_findByEmail em False now s = (prisma_user_findUnique (ByEmail em) s, s)"
  by (simp add: AuthRepository_findByEmail_def split: option.splits)

subsection \<open>Updates of one user\<close>

lemma find_Some_other: "find P xs = Some x \<Longrightarrow> Q x \<Longrightarrow> find Q xs \<noteq> None"
  by (induction xs) (auto split: if_splits)

lemma updateRefreshToken_Inr:
  assumes "AuthRepository_updateRefreshToken E i tok s = (Inr u, s')"
  shows "\<exists>u0. prisma_user_findUnique (ById i) s = Some u0 \<and> u = u0\<lparr>refreshToken := tok\<rparr>
           \<and> prisma_user_findUnique (ById i) s' = Some u
           \<and> (\<forall>em. prisma_user_findUnique (ByEmail em) s'
                     = map_option (\<lambda>y. if y = u0 then u else y)
                         (prisma_user_findUnique (ByEmail em) s))
           \<and> cache s' = (cache s)(makeKey [''user'', i] := None)
           \<and> logs s' = logs s"
proof -
  let ?d = "noData\<lparr>d_refreshToken := Some tok\<rparr>"
  from assms obtain s1 where
    upd: "prisma_user_update E (ById i) ?d s = (Inr u, s1)"
    and s': "s' = cacheDel (makeKey [''user'', i]) s1"
    by (auto simp: AuthRepository_updateRefreshToken_def split: prod.splits sum.splits)
  from prisma_user_update_Inr [OF upd] obtain u0 where
    f: "prisma_user_findUnique (ById i) s = Some u0"
    and u: "u = applyData (hookData E ?d) u0"
    and s1: "s1 = s\<lparr>users := updateFirst (matches (ById i)) (\<lambda>_. u) (users s)\<rparr>"
    by (auto simp: prisma_user_findUnique_def)
  have shape: "u = u0\<lparr>refreshToken := tok\<rparr>"
    using u by (simp add: applyData_def hookData_def noData_def orElse_def)
  from f have "matches (ById i) u0"
    unfolding prisma_user_findUnique_def by (rule find_Some_holds)
  with shape have "matches (ById i) u" by simp
  from prisma_update_find_same [OF upd this] s'
  have same: "prisma_user_findUnique (ById i) s' = Some u"
    by (simp add: prisma_user_findUnique_def cacheDel_def)
  have other: "prisma_user_findUnique (ByEmail em) s'
                 = map_option (\<lambda>y. if y = u0 then u else y) (prisma_user_findUnique (ByEmail em) s)"
    for em
  proof -
    have "matches (ByEmail em) u = matches (ByEmail em) u0"
      using shape by simp
    from prisma_update_find_other [OF upd f this] s' show ?thesis
      by (simp add: prisma_user_findUnique_def cacheDel_def)
  qed
  from s' s1 have "cache s' = (cache s)(makeKey [''user'', i] := None)" and "logs s' = logs s"
    by (simp_all add: cacheDel_def)
  with f shape same other show ?thesis by blast
qed

lemma updateRefreshToken_found:
  assumes "prisma_user_findUnique (ById i) s = Some u0"
  shows "\<exists>s'. AuthRepository_updateRefreshToken E i tok s = (Inr (u0\<lparr>refreshToken := tok\<rparr>), s')"
proof -
  let ?d = "noData\<lparr>d_refreshToken := Some tok\<rparr>"
  from assms have f: "find (matches (ById i)) (users s) = Some u0"
    by (simp only: prisma_user_findUnique_def)
  have new: "applyData (hookData E ?d) u0 = u0\<lparr>refreshToken := tok\<rparr>"
    by (simp add: applyData_def hookData_def noData_def orElse_def)
  from prisma_user_update_same_keys [OF f, of ?d E] new
  show ?thesis
    by (simp add: AuthRepository_updateRefreshToken_def noData_def)
qed

lemma verifyEmail_absent:
  assumes "prisma_user_findUnique (ByEmail em) s = None"
  shows "AuthRepository_verifyEmail E em s = (Inl (PrismaErr ''P2025''), s)"
  using assms
  by (simp add: AuthRepository_verifyEmail_def prisma_user_update_def prisma_user_findUnique_def)

lemma verifyEmail_found:
  assumes "prisma_user_findUnique (ByEmail em) s = Some u0"
  shows "\<exists>u s'. AuthRepository_verifyEmail E em s = (Inr u, s')
           \<and> u = u0\<lparr>isEmailVerified := True, otpCode := None, otpExpiresAt := None\<rparr>
           \<and> prisma_user_findUnique (ByEmail em) s' = Some u
           \<and> cache s' = (cache s)(makeKey [''user'', ''email'', em] := None,
                                  makeKey [''user'', user_id u] := None)"
proof -
  let ?d = "noData\<lparr>d_isEmailVerified := Some True, d_otpCode := Some None,
                   d_otpExpiresAt := Some None\<rparr>"
  let ?u = "u0\<lparr>isEmailVerified := True, otpCode := None, otpExpiresAt := None\<rparr>"
  let ?s1 = "s\<lparr>users := updateFirst (matches (ByEmail em)) (\<lambda>_. ?u) (users s)\<rparr>"
  from assms have f: "find (matches (ByEmail em)) (users s) = Some u0"
    by (simp only: prisma_user_findUnique_def)
  have new: "applyData (hookData E ?d) u0 = ?u"
    by (simp add: applyData_def hookData_def noData_def orElse_def)
  from prisma_user_update_same_keys [OF f, of ?d E] new
  have upd: "prisma_user_update E (ByEmail em) ?d s = (Inr ?u, ?s1)"
    by (simp add: noData_def)
  from f have "matches (ByEmail em) u0" by (rule find_Some_holds)
  then have "matches (ByEmail em) ?u" by simp
  from prisma_update_find_same [OF upd this]
  have found: "prisma_user_findUnique (ByEmail em) ?s1 = Some ?u" .
  have run: "AuthRepository_verifyEmail E em s
             = (Inr ?u, cacheDel (makeKey [''user'', user_id ?u])
                          (cacheDel (makeKey [''user'', ''email'', em]) ?s1))"
    using upd by (simp add: AuthRepository_verifyEmail_def)
  have "prisma_user_findUnique (ByEmail em)
          (cacheDel (makeKey [''user'', user_id ?u])
             (cacheDel (makeKey [''user'', ''email'', em]) ?s1)) = Some ?u"
    using found by (simp add: prisma_user_findUnique_def cacheDel_def)
  moreover
  have "cache (cacheDel (makeKey [''user'', user_id ?u])
                 (cacheDel (makeKey [''user'', ''email'', em]) ?s1))
        = (cache s)(makeKey [''user'', ''email'', em] := None,
                    makeKey [''user'', user_id ?u] := None)"
    by (simp add: cacheDel_def)
  ultimately show ?thesis using run by blast
qed

lemma issueTokens_Inr:
  assumes "issueTokens E user now s = (Inr r, s')"
  shows "r = AuthDto_toLoginResponse user (generateTokens E (tokenPayloadOf user) now)
         \<and> (\<exists>u. AuthRepository_updateRefreshToken E (user_id user)
                    (Some (t_refreshToken (generateTokens E (tokenPayloadOf user) now))) s
                  = (Inr u, s'))"
  using assms
  by (auto simp: issueTokens_def Let_def split: prod.splits sum.splits)

lemma issueTokens_found:
  assumes "prisma_user_findUnique (ById (user_id user)) s = Some u0"
  shows "\<exists>s'. issueTokens E user now s
               = (Inr (AuthDto_toLoginResponse user (generateTokens E (tokenPayloadOf user) now)), s')"
proof -
  from updateRefreshToken_found [OF assms] obtain s' where
    "AuthRepository_updateRefreshToken E (user_id user)
       (Some (t_refreshToken (generateTokens E (tokenPayloadOf user) now))) s
     = (Inr (u0\<lparr>refreshToken := Some (t_refreshToken (generateTokens E (tokenPayloadOf user) now))\<rparr>), s')"
    by blast
  then show ?thesis by (simp add: issueTokens_def Let_def)
qed

subsection \<open>The check of verifyOtp\<close>

lemma otpCheck_state [simp]: "snd (otpCheck p now s) = s"
  by (simp add: otpCheck_def Let_def split: option.splits)

lemma otpCheck_accepts: "(fst (otpCheck p now s) = None) = otpAccepted p now s"
  by (auto simp: otpCheck_def otpAccepted_def Let_def not_less split: option.splits)

lemma otpCheck_rejects:
  "fst (otpCheck p now s) = Some e \<Longrightarrow> statusCode e = BAD_REQUEST"
  by (auto simp: otpCheck_def Let_def badRequest_def split: option.splits if_splits)

lemma verifyOtp_rejected:
  assumes "otpCheck p now s = (Some e, s)"
  shows "AuthService_verifyOtp E p now s = (Inl (AppErr e), s)"
  using assms by (simp add: AuthService_verifyOtp_def)

lemma verifyOtp_forgotPassword_passed:
  assumes "otpCheck p now s = (None, s)" and "v_type p = ForgotPassword"
  shows "AuthService_verifyOtp E p now s
         = (Inr (VerifiedResponse True (v_email p)),
            AuthRepository_deleteOtpCache (v_email p) ''forgotPassword'' s)"
  using assms by (simp add: AuthService_verifyOtp_def)

lemma verifyOtp_emailVerification_absent:
  assumes "otpCheck p now s = (None, s)" and "v_type p = EmailVerification"
    and "prisma_user_findUnique (ByEmail (v_email p)) s = None"
  shows "AuthService_verifyOtp E p now s = (Inl (PrismaErr ''P2025''), s)"
  using assms by (simp add: AuthService_verifyOtp_def verifyEmail_absent)

text \<open>A passed verification of type emailVerification, with the user there: it
  succeeds, and the state it leaves rejects the same code.\<close>

lemma verifyOtp_emailVerification_passed:
  assumes chk: "otpCheck p now s = (None, s)" and ty: "v_type p = EmailVerification"
    and u0: "prisma_user_findUnique (ByEmail (v_email p)) s = Some u0"
  shows "\<exists>r s'. AuthService_verifyOtp E p now s = (Inr r, s')
           \<and> AuthService_verifyOtp E p now' s'
               = (Inl (AppErr (badRequest ''Invalid or expired OTP code''
                                 (fieldError ''otp'' ''Invalid or expired OTP code''))), s')"
proof -
  let ?em = "v_email p"
  from verifyEmail_found [OF u0, of E] obtain u1 s2 where
    ve: "AuthRepository_verifyEmail E ?em s = (Inr u1, s2)"
    and u1: "u1 = u0\<lparr>isEmailVerified := True, otpCode := None, otpExpiresAt := None\<rparr>"
    and f2: "prisma_user_findUnique (ByEmail ?em) s2 = Some u1"
    by blast
  let ?s3 = "logger LInfo ''Email verified successfully''
               (AuthRepository_deleteOtpCache ?em ''emailVerification'' s2)"
  have users3: "users ?s3 = users s2"
    by (simp add: AuthRepository_deleteOtpCache_def cacheDel_def)
  have otp3: "cache ?s3 (makeKey [''otp'', ''emailVerification'', ?em]) = None"
    by (simp add: AuthRepository_deleteOtpCache_def cacheDel_def)
  from f2 users3 have f3: "prisma_user_findUnique (ByEmail ?em) ?s3 = Some u1"
    by (simp add: prisma_user_findUnique_def)
  then have "find (matches (ByEmail ?em)) (users ?s3) = Some u1"
    by (simp only: prisma_user_findUnique_def)
  from find_Some_other [OF this, of "matches (ById (user_id u1))"]
  obtain v where v: "prisma_user_findUnique (ById (user_id u1)) ?s3 = Some v"
    by (auto simp: prisma_user_findUnique_def)
  from issueTokens_found [OF v, of E now] obtain s4 where
    it: "issueTokens E u1 now ?s3
         = (Inr (AuthDto_toLoginResponse u1 (generateTokens E (tokenPayloadOf u1) now)), s4)"
    by blast
  have run: "AuthService_verifyOtp E p now s
             = (Inr (AuthDto_toLoginResponse u1 (generateTokens E (tokenPayloadOf u1) now)), s4)"
    using chk ty ve it by (simp add: AuthService_verifyOtp_def)
  from issueTokens_Inr [OF it] obtain u where
    ur: "AuthRepository_updateRefreshToken E (user_id u1)
           (Some (t_refreshToken (generateTokens E (tokenPayloadOf u1) now))) ?s3 = (Inr u, s4)"
    by blast
  from updateRefreshToken_Inr [OF ur] obtain w where
    w: "u = w\<lparr>refreshToken := Some (t_refreshToken (generateTokens E (tokenPayloadOf u1) now))\<rparr>"
    and f4: "prisma_user_findUnique (ByEmail ?em) s4
             = map_option (\<lambda>y. if y = w then u else y) (prisma_user_findUnique (ByEmail ?em) ?s3)"
    and c4: "cache s4 = (cache ?s3)(makeKey [''user'', user_id u1] := None)"
    by blast
  from f4 f3 have f4': "prisma_user_findUnique (ByEmail ?em) s4 = Some (if u1 = w then u else u1)"
    by simp
  from u1 w have code: "otpCode (if u1 = w then u else u1) = None"
    by auto
  from c4 otp3 have "cache s4 (makeKey [''otp'', ''emailVerification'', ?em]) = None"
    by (simp add: makeKey_def)
  then have miss: "AuthRepository_getOtpCache ?em ''emailVerification'' now' s4 = None"
    by (simp add: AuthRepository_getOtpCache_def cacheGetString_def cacheGet_def)
  have "otpCheck p now' s4
        = (Some (badRequest ''Invalid or expired OTP code''
                   (fieldError ''otp'' ''Invalid or expired OTP code'')), s4)"
    using miss ty f4' code by (simp add: otpCheck_def)
  from verifyOtp_rejected [OF this] run show ?thesis by blast
qed

subsection \<open>Looking a user up by id\<close>

lemma findById_keyed:
  assumes "userCacheKeyed s" and "AuthRepository_findById i now s = (Some u, s1)"
  shows "user_id u = i"
proof (cases "cacheGetUser (makeKey [''user'', i]) now s")
  case None
  with assms(2) have "find (matches (ById i)) (users s) = Some u"
    by (auto simp: AuthRepository_findById_def prisma_user_findUnique_def split: option.splits)
  from find_Some_holds [OF this] show ?thesis by simp
next
  case (Some c)
  with assms(2) have "c = u"
    by (simp add: AuthRepository_findById_def)
  with Some obtain t where "cache s (makeKey [''user'', i]) = Some (CUser u, t)"
    by (auto simp: cacheGetUser_def cacheGet_def split: option.splits CacheValue.splits if_splits)
  with assms(1) show ?thesis
    unfolding userCacheKeyed_def by blast
qed

lemma findById_users [simp]: "users (snd (AuthRepository_findById i now s)) = users s"
  by (simp add: AuthRepository_findById_def cacheSet_def split: option.splits)

lemma findById_uncached:
  assumes "cache s (makeKey [''user'', i]) = None"
  shows "fst (AuthRepository_findById i now s) = prisma_user_findUnique (ById i) s"
  using assms
  by (simp add: AuthRepository_findById_def cacheGetUser_def cacheGet_def split: option.splits)

lemma isTokenBlacklisted_updateRefreshToken:
  assumes "cache s' = (cache s)(makeKey [''user'', i] := None)"
  shows "AuthRepository_isTokenBlacklisted token now s' = AuthRepository_isTokenBlacklisted token now s"
  using assms by (simp add: AuthRepository_isTokenBlacklisted_def cacheGet_def makeKey_def)

subsection \<open>The user cache stays keyed by id\<close>

text \<open>
  The hypothesis of C3 on the user cache is an invariant: it holds of an empty cache, and
  every operation of the service and the middleware keeps it.
\<close>

lemma userCacheKeyed_cacheDel: "userCacheKeyed s \<Longrightarrow> userCacheKeyed (cacheDel k s)"
  by (simp add: userCacheKeyed_def cacheDel_def)

lemma userCacheKeyed_cacheSet_user:
  "userCacheKeyed s \<Longrightarrow> user_id u = i
   \<Longrightarrow> userCacheKeyed (cacheSet (makeKey [''user'', i]) (CUser u) ttl now s)"
  by (simp add: userCacheKeyed_def cacheSet_def makeKey_def)

lemma userCacheKeyed_cacheSet_other:
  "userCacheKeyed s \<Longrightarrow> userCacheKeyed (cacheSet (makeKey [a, b, c]) v ttl now s)"
  by (simp add: userCacheKeyed_def cacheSet_def makeKey_def)

lemma userCacheKeyed_users [simp]: "userCacheKeyed (s\<lparr>users := us\<rparr>) = userCacheKeyed s"
  by (simp add: userCacheKeyed_def)

lemma userCacheKeyed_logger [simp]: "userCacheKeyed (logger l m s) = userCacheKeyed s"
  by (simp add: userCacheKeyed_def)

lemma userCacheKeyed_mail [simp]:
  "userCacheKeyed (sendVerificationMail E em otp m s) = userCacheKeyed s"
  by (simp add: sendVerificationMail_def)

lemma userCacheKeyed_prisma_update:
  "prisma_user_update E wh d s = (r, s') \<Longrightarrow> userCacheKeyed s \<Longrightarrow> userCacheKeyed s'"
  by (auto simp: prisma_user_update_def Let_def split: option.splits if_splits)

lemma userCacheKeyed_findByEmail:
  "AuthRepository_findByEmail em uc now s = (r, s') \<Longrightarrow> userCacheKeyed s \<Longrightarrow> userCacheKeyed s'"
  by (auto simp: AuthRepository_findByEmail_def userCacheKeyed_cacheSet_other
      split: option.splits if_splits)

lemma userCacheKeyed_findById:
  assumes "AuthRepository_findById i now s = (r, s')" and "userCacheKeyed s"
  shows "userCacheKeyed s'"
proof (cases "cacheGetUser (makeKey [''user'', i]) now s")
  case (Some c)
  with assms show ?thesis by (simp add: AuthRepository_findById_def)
next
  case None
  show ?thesis
  proof (cases "find (matches (ById i)) (users s)")
    case n: None
    with None assms show ?thesis
      by (simp add: AuthRepository_findById_def prisma_user_findUnique_def)
  next
    case (Some u)
    from find_Some_holds [OF this] have "user_id u = i" by simp
    with None Some assms show ?thesis
      by (auto simp: AuthRepository_findById_def prisma_user_findUnique_def
          intro: userCacheKeyed_cacheSet_user)
  qed
qed

lemma userCacheKeyed_create:
  "AuthRepository_create E payload newId now s = (r, s') \<Longrightarrow> userCacheKeyed s \<Longrightarrow> userCacheKeyed s'"
  by (auto simp: AuthRepository_create_def prisma_user_create_def Let_def
      split: if_splits intro!: userCacheKeyed_cacheSet_other userCacheKeyed_cacheSet_user)

lemma userCacheKeyed_updateOtp:
  "AuthRepository_updateOtp E em otp t s = (r, s') \<Longrightarrow> userCacheKeyed s \<Longrightarrow> userCacheKeyed s'"
  by (auto simp: AuthRepository_updateOtp_def split: prod.splits sum.splits
      dest: userCacheKeyed_prisma_update intro!: userCacheKeyed_cacheDel)

lemma userCacheKeyed_verifyEmail:
  "AuthRepository_verifyEmail E em s = (r, s') \<Longrightarrow> userCacheKeyed s \<Longrightarrow> userCacheKeyed s'"
  by (auto simp: AuthRepository_verifyEmail_def split: prod.splits sum.splits
      dest: userCacheKeyed_prisma_update intro!: userCacheKeyed_cacheDel)

lemma userCacheKeyed_updatePassword:
  "AuthRepository_updatePassword E em pw s = (r, s') \<Longrightarrow> userCacheKeyed s \<Longrightarrow> userCacheKeyed s'"
  by (auto simp: AuthRepository_updatePassword_def split: prod.splits sum.splits
      dest: userCacheKeyed_prisma_update intro!: userCacheKeyed_cacheDel)

lemma userCacheKeyed_updateRefreshToken:
  "AuthRepository_updateRefreshToken E i tok s = (r, s') \<Longrightarrow> userCacheKeyed s \<Longrightarrow> userCacheKeyed s'"
  by (auto simp: AuthRepository_updateRefreshToken_def split: prod.splits sum.splits
      dest: userCacheKeyed_prisma_update intro!: userCacheKeyed_cacheDel)

lemma userCacheKeyed_updateProfile:
  "AuthRepository_updateProfile E i d s = (r, s') \<Longrightarrow> userCacheKeyed s \<Longrightarrow> userCacheKeyed s'"
  by (auto simp: AuthRepository_updateProfile_def Let_def split: prod.splits sum.splits option.splits
      dest: userCacheKeyed_prisma_update intro!: userCacheKeyed_cacheDel)

lemma userCacheKeyed_otpCache [simp]:
  "userCacheKeyed (AuthRepository_setOtpCache em ty otp now s) = userCacheKeyed s"
  "userCacheKeyed (AuthRepository_deleteOtpCache em ty s) = userCacheKeyed s"
  "userCacheKeyed (AuthRepository_blacklistToken token ttl now s) = userCacheKeyed s"
  by (simp_all add: AuthRepository_setOtpCache_def AuthRepository_deleteOtpCache_def
      AuthRepository_blacklistToken_def userCacheKeyed_def cacheSet_def cacheDel_def makeKey_def)

lemma userCacheKeyed_issueTokens:
  "issueTokens E u now s = (r, s') \<Longrightarrow> userCacheKeyed s \<Longrightarrow> userCacheKeyed s'"
  by (auto simp: issueTokens_def Let_def split: prod.splits sum.splits
      dest: userCacheKeyed_updateRefreshToken)

lemma userCacheKeyed_refreshToken:
  "AuthService_refreshToken E token now s = (r, s') \<Longrightarrow> userCacheKeyed s \<Longrightarrow> userCacheKeyed s'"
  by (auto simp: AuthService_refreshToken_def split: option.splits prod.splits if_splits
      dest: userCacheKeyed_findById userCacheKeyed_issueTokens)

lemma userCacheKeyed_login:
  "AuthService_login E p now s = (r, s') \<Longrightarrow> userCacheKeyed s \<Longrightarrow> userCacheKeyed s'"
  by (auto simp: AuthService_login_def split: option.splits prod.splits if_splits
      dest: userCacheKeyed_issueTokens)

lemma userCacheKeyed_signup:
  "AuthService_signup E p otp newId now s = (r, s') \<Longrightarrow> userCacheKeyed s \<Longrightarrow> userCacheKeyed s'"
  by (auto simp: AuthService_signup_def Let_def split: option.splits prod.splits sum.splits
      dest!: userCacheKeyed_findByEmail userCacheKeyed_create userCacheKeyed_updateOtp)

lemma userCacheKeyed_otpCheck:
  "otpCheck p now s = (r, s') \<Longrightarrow> userCacheKeyed s \<Longrightarrow> userCacheKeyed s'"
  using otpCheck_state [of p now s] by simp

lemma userCacheKeyed_verifyOtp:
  "AuthService_verifyOtp E p now s = (r, s') \<Longrightarrow> userCacheKeyed s \<Longrightarrow> userCacheKeyed s'"
  by (auto simp: AuthService_verifyOtp_def split: option.splits prod.splits sum.splits
      OtpType.splits dest!: userCacheKeyed_otpCheck userCacheKeyed_verifyEmail userCacheKeyed_issueTokens)

lemma userCacheKeyed_resendOtp:
  "AuthService_resendOtp E p otp now s = (r, s') \<Longrightarrow> userCacheKeyed s \<Longrightarrow> userCacheKeyed s'"
  by (auto simp: AuthService_resendOtp_def Let_def split: option.splits prod.splits sum.splits
      if_splits dest!: userCacheKeyed_findByEmail userCacheKeyed_updateOtp)

lemma userCacheKeyed_forgotPassword:
  "AuthService_forgotPassword E em otp now s = (r, s') \<Longrightarrow> userCacheKeyed s \<Longrightarrow> userCacheKeyed s'"
  by (auto simp: AuthService_forgotPassword_def Let_def split: option.splits prod.splits
      sum.splits if_splits dest!: userCacheKeyed_findByEmail userCacheKeyed_updateOtp)

lemma userCacheKeyed_resetPassword:
  "AuthService_resetPassword E em pw now s = (r, s') \<Longrightarrow> userCacheKeyed s \<Longrightarrow> userCacheKeyed s'"
  by (auto simp: AuthService_resetPassword_def split: option.splits prod.splits sum.splits
      dest!: userCacheKeyed_updatePassword)

lemma userCacheKeyed_logout:
  "AuthService_logout E userId token now s = (r, s') \<Longrightarrow> userCacheKeyed s \<Longrightarrow> userCacheKeyed s'"
  by (auto simp: AuthService_logout_def Let_def split: option.splits prod.splits sum.splits
      if_splits dest!: userCacheKeyed_updateRefreshToken)

lemma userCacheKeyed_changePassword:
  "AuthService_changePassword E userId p now s = (r, s') \<Longrightarrow> userCacheKeyed s
   \<Longrightarrow> userCacheKeyed s'"
  by (auto simp: AuthService_changePassword_def Let_def split: option.splits prod.splits
      sum.splits if_splits dest!: userCacheKeyed_findById userCacheKeyed_updatePassword)

lemma userCacheKeyed_getMe:
  "AuthService_getMe userId now s = (r, s') \<Longrightarrow> userCacheKeyed s \<Longrightarrow> userCacheKeyed s'"
  by (auto simp: AuthService_getMe_def split: option.splits prod.splits
      dest!: userCacheKeyed_findById)

lemma userCacheKeyed_updateProfileSvc:
  "AuthService_updateProfile E userId p s = (r, s') \<Longrightarrow> userCacheKeyed s \<Longrightarrow> userCacheKeyed s'"
  by (auto simp: AuthService_updateProfile_def split: prod.splits sum.splits
      dest!: userCacheKeyed_updateProfile)

lemma userCacheKeyed_guestLogin:
  "AuthService_guestLogin E uname rnd1 rnd2 newId now s = (r, s') \<Longrightarrow> userCacheKeyed s
   \<Longrightarrow> userCacheKeyed s'"
  by (auto simp: AuthService_guestLogin_def Let_def split: prod.splits sum.splits
      dest!: userCacheKeyed_create userCacheKeyed_issueTokens)

lemma userCacheKeyed_verifyFirebaseToken:
  "verifyFirebaseToken E idToken s = (r, s') \<Longrightarrow> userCacheKeyed s \<Longrightarrow> userCacheKeyed s'"
  by (auto simp: verifyFirebaseToken_def split: option.splits)

lemma userCacheKeyed_googleAuth:
  "AuthService_googleAuth E idToken uname rnd newId now s = (r, s') \<Longrightarrow> userCacheKeyed s
   \<Longrightarrow> userCacheKeyed s'"
  by (auto simp: AuthService_googleAuth_def Let_def
      split: option.splits prod.splits sum.splits if_splits
      dest!: userCacheKeyed_verifyFirebaseToken userCacheKeyed_findByEmail
        userCacheKeyed_updateProfile userCacheKeyed_create userCacheKeyed_issueTokens)

lemma userCacheKeyed_convertGuestToRegistered:
  "AuthService_convertGuestToRegistered E userId p otp now s = (r, s') \<Longrightarrow> userCacheKeyed s
   \<Longrightarrow> userCacheKeyed s'"
  by (auto simp: AuthService_convertGuestToRegistered_def Let_def
      split: option.splits prod.splits sum.splits if_splits
      dest!: userCacheKeyed_findById userCacheKeyed_findByEmail userCacheKeyed_updateProfile
        userCacheKeyed_prisma_update userCacheKeyed_updateRefreshToken userCacheKeyed_updateOtp)

lemma userCacheKeyed_call:
  "AuthService_call E c now s = (r, s') \<Longrightarrow> userCacheKeyed s \<Longrightarrow> userCacheKeyed s'"
  by (cases c)
     (auto dest: userCacheKeyed_signup userCacheKeyed_login userCacheKeyed_verifyOtp
        userCacheKeyed_resendOtp userCacheKeyed_forgotPassword userCacheKeyed_resetPassword
        userCacheKeyed_refreshToken userCacheKeyed_logout userCacheKeyed_changePassword
        userCacheKeyed_getMe userCacheKeyed_updateProfileSvc userCacheKeyed_googleAuth
        userCacheKeyed_guestLogin userCacheKeyed_convertGuestToRegistered)

lemma userCacheKeyed_authenticate:
  "authenticate E req now s = (r, s') \<Longrightarrow> userCacheKeyed s \<Longrightarrow> userCacheKeyed s'"
  by (auto simp: authenticate_def Let_def userCacheKeyed_cacheSet_other
      split: option.splits prod.splits if_splits dest!: userCacheKeyed_findById)

lemma userCacheKeyed_empty: "cache s = Map.empty \<Longrightarrow> userCacheKeyed s"
  by (simp add: userCacheKeyed_def)

subsection \<open>What the operations return\<close>

lemma stripped_safeData: "stripped (safeData u)"
  by (simp add: stripped_def safeData_def)

lemma responseUser_dto [simp]:
  "responseUser (AuthDto_toResponse u) = Some (safeData u)"
  "responseUser (AuthDto_toSignupResponse u) = Some (safeData u)"
  "responseUser (AuthDto_toLoginResponse u token) = Some (safeData u)"
  by (simp_all add: AuthDto_toResponse_def AuthDto_toSignupResponse_def AuthDto_toLoginResponse_def)

lemma issueTokens_response:
  "issueTokens E user now s = (Inr r, s') \<Longrightarrow> responseUser r = Some (safeData user)"
  by (auto simp: issueTokens_def Let_def split: prod.splits sum.splits)

lemma signup_response:
  "AuthService_signup E p otp newId now s = (Inr r, s') \<Longrightarrow> \<exists>u. responseUser r = Some (safeData u)"
  by (auto simp: AuthService_signup_def Let_def split: option.splits prod.splits sum.splits)

lemma login_response:
  "AuthService_login E p now s = (Inr r, s') \<Longrightarrow> \<exists>u. responseUser r = Some (safeData u)"
  by (auto simp: AuthService_login_def split: option.splits if_splits
      dest!: issueTokens_response)

lemma verifyOtp_response:
  "AuthService_verifyOtp E p now s = (Inr r, s') \<Longrightarrow>
   (if v_type p = EmailVerification then \<exists>u. responseUser r = Some (safeData u)
    else responseUser r = None)"
  by (auto simp: AuthService_verifyOtp_def
      split: option.splits prod.splits sum.splits OtpType.splits
      dest!: issueTokens_response)

lemma resendOtp_response:
  "AuthService_resendOtp E p otp now s = (Inr r, s') \<Longrightarrow> responseUser r = None"
  by (auto simp: AuthService_resendOtp_def Let_def
      split: option.splits prod.splits sum.splits if_splits)

lemma forgotPassword_response:
  "AuthService_forgotPassword E em otp now s = (Inr r, s') \<Longrightarrow> responseUser r = None"
  by (auto simp: AuthService_forgotPassword_def Let_def
      split: option.splits prod.splits sum.splits if_splits)

lemma resetPassword_response:
  "AuthService_resetPassword E em pw now s = (Inr r, s') \<Longrightarrow> \<exists>u. responseUser r = Some (safeData u)"
  by (auto simp: AuthService_resetPassword_def split: option.splits prod.splits sum.splits)

lemma refreshToken_response:
  "AuthService_refreshToken E token now s = (Inr r, s') \<Longrightarrow> \<exists>u. responseUser r = Some (safeData u)"
  by (auto simp: AuthService_refreshToken_def split: option.splits prod.splits if_splits
      dest!: issueTokens_response)

lemma logout_response:
  "AuthService_logout E userId token now s = (Inr r, s') \<Longrightarrow> responseUser r = None"
  by (auto simp: AuthService_logout_def Let_def split: option.splits prod.splits sum.splits)

lemma changePassword_response:
  "AuthService_changePassword E userId p now s = (Inr r, s') \<Longrightarrow>
   \<exists>u. responseUser r = Some (safeData u)"
  by (auto simp: AuthService_changePassword_def Let_def
      split: option.splits prod.splits sum.splits if_splits)

lemma getMe_response:
  "AuthService_getMe userId now s = (Inr r, s') \<Longrightarrow> \<exists>u. responseUser r = Some (safeData u)"
  by (auto simp: AuthService_getMe_def split: option.splits prod.splits)

lemma updateProfile_response:
  "AuthService_updateProfile E userId p s = (Inr r, s') \<Longrightarrow> \<exists>u. responseUser r = Some (safeData u)"
  by (auto simp: AuthService_updateProfile_def split: prod.splits sum.splits)

lemma googleAuth_response:
  "AuthService_googleAuth E idToken uname rnd newId now s = (Inr r, s') \<Longrightarrow>
   \<exists>u. responseUser r = Some (safeData u)"
  by (auto simp: AuthService_googleAuth_def Let_def
      split: option.splits prod.splits sum.splits if_splits
      dest!: issueTokens_response)

lemma guestLogin_response:
  "AuthService_guestLogin E uname rnd1 rnd2 newId now s = (Inr r, s') \<Longrightarrow>
   \<exists>u. responseUser r = Some (safeData u)"
  by (auto simp: AuthService_guestLogin_def Let_def split: prod.splits sum.splits
      dest!: issueTokens_response)

lemma convertGuestToRegistered_response:
  "AuthService_convertGuestToRegistered E userId p otp now s = (Inr r, s') \<Longrightarrow>
   \<exists>u. responseUser r = Some (safeData u)"
  by (auto simp: AuthService_convertGuestToRegistered_def Let_def
      split: option.splits prod.splits sum.splits if_splits)

lemma call_response:
  assumes "AuthService_call E c now s = (Inr r, s')"
  shows "if returnsUser c then \<exists>u. responseUser r = Some (safeData u) else responseUser r = None"
proof (cases c)
  case (CallSignup payload otp newId)
  with assms signup_response show ?thesis by simp
next
  case (CallLogin payload)
  with assms login_response show ?thesis by simp
next
  case (CallVerifyOtp payload)
  with assms verifyOtp_response [of E payload now s r s'] show ?thesis by simp
next
  case (CallResendOtp payload otp)
  with assms resendOtp_response show ?thesis by simp
next
  case (CallForgotPassword em otp)
  with assms forgotPassword_response show ?thesis by simp
next
  case (CallResetPassword em pw)
  with assms resetPassword_response show ?thesis by simp
next
  case (CallRefreshToken token)
  with assms refreshToken_response show ?thesis by simp
next
  case (CallLogout userId token)
  with assms logout_response show ?thesis by simp
next
  case (CallChangePassword userId payload)
  with assms changePassword_response show ?thesis by simp
next
  case (CallGetMe userId)
  with assms getMe_response show ?thesis by simp
next
  case (CallUpdateProfile userId payload)
  with assms updateProfile_response show ?thesis by simp
next
  case (CallGoogleAuth idToken uname rnd newId)
  with assms googleAuth_response show ?thesis by simp
next
  case (CallGuestLogin uname rnd1 rnd2 newId)
  with assms guestLogin_response show ?thesis by simp
next
  case (CallConvertGuestToRegistered userId payload otp)
  with assms convertGuestToRegistered_response show ?thesis by simp
qed

subsection \<open>Runs on the sample states\<close>

lemma showNat_100000: "showNat 100000 = ''100000''"
  by (simp add: showNat.simps)

lemmas run_defs =
  issueTokens_def tokenPayloadOf_def verifyToken_def verifyRefreshToken_def tokenLive_def
  truthy_def requestToken_def authProjection_def sendVerificationMail_def dto_defs error_defs
  repo_defs prisma_defs cache_defs Let_def sampleEnv_simps

section \<open>C10: a cached password-reset code verifies without a user\<close>

text \<open>
  C10. When the cache holds a code for (email, forgotPassword) and the supplied code
  equals it, \<open>verifyOtp\<close> of type forgotPassword returns \<open>{verified: true, email}\<close>,
  whatever the user table holds (also when no user has that email), and the state it
  leaves differs from the one it found only in that cache entry, which is deleted. The
  supplied code is not empty (the route validates six digits).
\<close>

theorem verifyOtp_forgotPassword_cached:
  assumes hit: "AuthRepository_getOtpCache em ''forgotPassword'' now s = Some otp"
    and nonempty: "otp \<noteq> []"
  shows "AuthService_verifyOtp E \<lparr>v_email = em, v_otp = otp, v_type = ForgotPassword\<rparr> now s
         = (Inr (VerifiedResponse True em),
            s\<lparr>cache := (cache s)(makeKey [''otp'', ''forgotPassword'', em] := None)\<rparr>)"
proof -
  have chk: "otpCheck \<lparr>v_email = em, v_otp = otp, v_type = ForgotPassword\<rparr> now s = (None, s)"
    using hit nonempty by (simp add: otpCheck_def)
  show ?thesis
    by (simp add: AuthService_verifyOtp_def chk AuthRepository_deleteOtpCache_def cacheDel_def)
qed

theorem verifyOtp_forgotPassword_cached_witness:
  "AuthRepository_getOtpCache ''a@x.com'' ''forgotPassword'' 100000 stagedOnlyState = Some ''123456''
   \<and> AuthRepository_findByEmailWithPassword ''a@x.com'' stagedOnlyState = None
   \<and> AuthService_verifyOtp sampleEnv
        \<lparr>v_email = ''a@x.com'', v_otp = ''123456'', v_type = ForgotPassword\<rparr> 100000 stagedOnlyState
      = (Inr (VerifiedResponse True ''a@x.com''),
         stagedOnlyState\<lparr>cache := (cache stagedOnlyState)
            (makeKey [''otp'', ''forgotPassword'', ''a@x.com''] := None)\<rparr>)
   \<and> users (snd (AuthService_verifyOtp sampleEnv
        \<lparr>v_email = ''a@x.com'', v_otp = ''123456'', v_type = ForgotPassword\<rparr> 100000 stagedOnlyState))
      = []"
proof -
  have hit: "AuthRepository_getOtpCache ''a@x.com'' ''forgotPassword'' 100000 stagedOnlyState
             = Some ''123456''"
    by (simp add: stagedOnlyState_def AuthRepository_getOtpCache_def cache_defs)
  have nouser: "AuthRepository_findByEmailWithPassword ''a@x.com'' stagedOnlyState = None"
    by (simp add: stagedOnlyState_def AuthRepository_findByEmailWithPassword_def
        prisma_user_findUnique_def)
  have ne: "''123456'' \<noteq> []" by simp
  note run = verifyOtp_forgotPassword_cached [OF hit ne, of sampleEnv]
  have "users (snd (AuthService_verifyOtp sampleEnv
        \<lparr>v_email = ''a@x.com'', v_otp = ''123456'', v_type = ForgotPassword\<rparr> 100000 stagedOnlyState))
      = []"
    unfolding run by (simp add: stagedOnlyState_def)
  with hit nouser run show ?thesis by simp
qed

section \<open>C6: what a failed login tells the caller\<close>




section \<open>C4: logout with a token that no longer verifies\<close>

text \<open>
  With a token that verifies, \<open>logout\<close> does what C4 says: the token enters the
  revoked-token cache until its \<open>exp\<close>, and the user's refresh token is cleared.
\<close>

lemma logout_live_token:
  assumes v: "verifyRefreshToken E token now = Some d"
    and e: "jwt_exp d = Some e"
    and u: "prisma_user_findUnique (ById userId) s = Some u0"
  shows "\<exists>s'. AuthService_logout E userId token now s
                 = (Inr (MessageResponse ''Logged out successfully''), s')
             \<and> cache s' (makeKey [''blacklist'', ''token'', token])
                 = Some (CString ''1'', now + (e - now div 1000) * 1000)
             \<and> prisma_user_findUnique (ById userId) s' = Some (u0\<lparr>refreshToken := None\<rparr>)"
proof -
  from v e have live: "now div 1000 < e"
    by (auto simp: verifyRefreshToken_def tokenLive_def split: option.splits if_splits)
  let ?s1 = "AuthRepository_blacklistToken token (e - now div 1000) now s"
  let ?d = "noData\<lparr>d_refreshToken := Some None\<rparr>"
  have f1: "find (matches (ById userId)) (users ?s1) = Some u0"
    using u by (simp add: prisma_user_findUnique_def AuthRepository_blacklistToken_def cacheSet_def)
  have new: "applyData (hookData E ?d) u0 = u0\<lparr>refreshToken := None\<rparr>"
    by (simp add: applyData_def hookData_def noData_def orElse_def)
  from prisma_user_update_same_keys [OF f1, of ?d E] new
  have upd: "prisma_user_update E (ById userId) ?d ?s1
             = (Inr (u0\<lparr>refreshToken := None\<rparr>),
                ?s1\<lparr>users := updateFirst (matches (ById userId)) (\<lambda>_. u0\<lparr>refreshToken := None\<rparr>)
                                (users ?s1)\<rparr>)"
    by (simp add: noData_def)
  from u have "matches (ById userId) u0"
    unfolding prisma_user_findUnique_def by (rule find_Some_holds)
  then have "matches (ById userId) (u0\<lparr>refreshToken := None\<rparr>)" by simp
  from prisma_update_find_same [OF upd this]
  have found: "prisma_user_findUnique (ById userId)
                 (?s1\<lparr>users := updateFirst (matches (ById userId)) (\<lambda>_. u0\<lparr>refreshToken := None\<rparr>)
                                  (users ?s1)\<rparr>) = Some (u0\<lparr>refreshToken := None\<rparr>)" .
  have run: "AuthService_logout E userId token now s
             = (Inr (MessageResponse ''Logged out successfully''),
                cacheDel (makeKey [''user'', userId])
                  (?s1\<lparr>users := updateFirst (matches (ById userId))
                                   (\<lambda>_. u0\<lparr>refreshToken := None\<rparr>) (users ?s1)\<rparr>))"
    using v e live upd
    by (simp add: AuthService_logout_def AuthRepository_updateRefreshToken_def Let_def
        nat_diff_distrib' of_nat_diff)
  have "cache (cacheDel (makeKey [''user'', userId])
                  (?s1\<lparr>users := updateFirst (matches (ById userId))
                                   (\<lambda>_. u0\<lparr>refreshToken := None\<rparr>) (users ?s1)\<rparr>))
          (makeKey [''blacklist'', ''token'', token])
        = Some (CString ''1'', now + (e - now div 1000) * 1000)"
    by (simp add: cacheDel_def AuthRepository_blacklistToken_def cacheSet_def makeKey_def)
  moreover
  have "prisma_user_findUnique (ById userId)
          (cacheDel (makeKey [''user'', userId])
             (?s1\<lparr>users := updateFirst (matches (ById userId))
                              (\<lambda>_. u0\<lparr>refreshToken := None\<rparr>) (users ?s1)\<rparr>))
        = Some (u0\<lparr>refreshToken := None\<rparr>)"
    using found by (simp add: prisma_user_findUnique_def cacheDel_def)
  ultimately show ?thesis using run by blast
qed

text \<open>
  C4, where the code departs from it. \<open>logout\<close> reads the expiry through
  \<open>verifyRefreshToken\<close>, outside any \<open>try\<close>. When the token does not verify (it has
  expired, or it is malformed or badly signed) the call throws what the verifier throws
  and the state is the one it found: the user's refresh token is not cleared.
\<close>

theorem logout_rejected_token_clears_nothing:
  assumes "verifyRefreshToken E token now = None"
  shows "AuthService_logout E userId token now s = (Inl JwtErr, s)"
  using assms by (simp add: AuthService_logout_def)

theorem logout_rejected_token_clears_nothing_witness:
  "verifyRefreshToken sampleEnv ''r1:u1'' 1000000 = None
   \<and> AuthService_logout sampleEnv ''u1'' ''r1:u1'' 1000000 tokenState = (Inl JwtErr, tokenState)
   \<and> map_option refreshToken (AuthRepository_findByEmailWithPassword ''a@x.com'' tokenState)
       = Some (Some ''r1:u1'')"
proof -
  have v: "verifyRefreshToken sampleEnv ''r1:u1'' 1000000 = None"
    by (simp add: verifyRefreshToken_def tokenLive_def sampleEnv_simps)
  have "map_option refreshToken (AuthRepository_findByEmailWithPassword ''a@x.com'' tokenState)
        = Some (Some ''r1:u1'')"
    by (simp add: AuthRepository_findByEmailWithPassword_def prisma_user_findUnique_def
        tokenState_def alice_def)
  with v logout_rejected_token_clears_nothing [OF v, of "''u1''" tokenState]
  show ?thesis by simp
qed

section \<open>C2: the password that changePassword stores\<close>

text \<open>
  C2, where the code departs from it. \<open>changePassword\<close> hashes the new password itself
  and hands the hash to \<open>updatePassword\<close>, whose \<open>prisma.user.update\<close> runs the
  extension's hook, which hashes what it is given once more (\<open>resetPassword\<close> hands over the
  plain password and leaves the hashing to the hook). After a successful call the row
  that a login by email reads holds the hash of the hash of the new password. With a
  hashing scheme under which a password verifies against exactly its own hash, and whose
  hash of the new password is not the new password itself, the new password does not
  verify against what is stored.
\<close>

theorem changePassword_stores_double_hash:
  assumes ok: "AuthService_changePassword E userId payload now s = (Inr r, s')"
    and nonempty: "hashPassword E (newPassword payload) \<noteq> []"
  shows "\<exists>u. r = AuthDto_toResponse u \<and> user_id u = userId
           \<and> AuthRepository_findByEmailWithPassword (email u) s' = Some u
           \<and> password u = hashPassword E (hashPassword E (newPassword payload))
           \<and> ((\<forall>x y. comparePassword E x (hashPassword E y) = (x = y))
                \<and> hashPassword E (newPassword payload) \<noteq> newPassword payload
                \<longrightarrow> \<not> comparePassword E (newPassword payload) (password u))"
proof -
  obtain found s1 where fb: "AuthRepository_findById userId now s = (found, s1)"
    by (cases "AuthRepository_findById userId now s")
  let ?em = "case found of None \<Rightarrow> [] | Some u \<Rightarrow> email u"
  from ok fb obtain user where
    user: "AuthRepository_findByEmailWithPassword ?em s1 = Some user"
    by (auto simp: AuthService_changePassword_def split: option.splits)
  from ok fb user have uid: "user_id user = userId"
    by (auto simp: AuthService_changePassword_def split: if_splits)
  from ok fb user uid obtain u' where
    upd: "AuthRepository_updatePassword E (email user) (hashPassword E (newPassword payload)) s1
          = (Inr u', s')"
    and r: "r = AuthDto_toResponse u'"
    by (auto simp: AuthService_changePassword_def Let_def split: if_splits prod.splits sum.splits)
  from updatePassword_Inr [OF upd nonempty] obtain u0 where
    u0: "prisma_user_findUnique (ByEmail (email user)) s1 = Some u0"
    and u': "u' = u0\<lparr>password := hashPassword E (hashPassword E (newPassword payload)),
                     otpCode := None, otpExpiresAt := None\<rparr>"
    and f': "prisma_user_findUnique (ByEmail (email user)) s' = Some u'"
    by blast
  from user have em: "email user = ?em"
    by (auto simp: AuthRepository_findByEmailWithPassword_def prisma_user_findUnique_def
        dest: find_Some_holds)
  with user u0 have "u0 = user"
    by (simp add: AuthRepository_findByEmailWithPassword_def)
  with u' uid have id': "user_id u' = userId" and em': "email u' = email user"
    and pw': "password u' = hashPassword E (hashPassword E (newPassword payload))"
    by simp_all
  from f' em' have "AuthRepository_findByEmailWithPassword (email u') s' = Some u'"
    by (simp add: AuthRepository_findByEmailWithPassword_def)
  with r id' pw' show ?thesis by auto
qed

theorem changePassword_stores_double_hash_witness:
  "fst (AuthService_changePassword sampleEnv ''u1''
          \<lparr>currentPassword = ''Secret123!'', newPassword = ''NewSecret456!''\<rparr> 100000 aliceState)
     = Inr (AuthDto_toResponse (alice\<lparr>password := ''$2b$$2b$NewSecret456!''\<rparr>))
   \<and> (\<exists>u. AuthRepository_findByEmailWithPassword ''a@x.com''
             (snd (AuthService_changePassword sampleEnv ''u1''
                \<lparr>currentPassword = ''Secret123!'', newPassword = ''NewSecret456!''\<rparr> 100000 aliceState))
           = Some u
         \<and> password u = ''$2b$$2b$NewSecret456!''
         \<and> \<not> comparePassword sampleEnv ''NewSecret456!'' (password u))
   \<and> fst (AuthService_login sampleEnv \<lparr>l_email = ''a@x.com'', l_password = ''NewSecret456!''\<rparr> 160000
            (snd (AuthService_changePassword sampleEnv ''u1''
               \<lparr>currentPassword = ''Secret123!'', newPassword = ''NewSecret456!''\<rparr> 100000 aliceState)))
       = Inl (AppErr (unauthorized ''Invalid email or password''
                        (fieldError ''email'' ''Invalid email or password'')))"
proof -
  let ?p = "\<lparr>currentPassword = ''Secret123!'', newPassword = ''NewSecret456!''\<rparr>"
  obtain r s' where run: "AuthService_changePassword sampleEnv ''u1'' ?p 100000 aliceState = (r, s')"
    by (cases "AuthService_changePassword sampleEnv ''u1'' ?p 100000 aliceState")
  have val: "fst (AuthService_changePassword sampleEnv ''u1'' ?p 100000 aliceState)
             = Inr (AuthDto_toResponse (alice\<lparr>password := ''$2b$$2b$NewSecret456!''\<rparr>))"
    by (simp add: AuthService_changePassword_def repo_defs prisma_defs cache_defs Let_def
        sampleEnv_simps aliceState_def alice_def)
  with run have ok: "AuthService_changePassword sampleEnv ''u1'' ?p 100000 aliceState
                     = (Inr (AuthDto_toResponse (alice\<lparr>password := ''$2b$$2b$NewSecret456!''\<rparr>)), s')"
    by simp
  have ne: "hashPassword sampleEnv (newPassword ?p) \<noteq> []"
    by (simp add: sampleEnv_simps)
  have ideal: "\<forall>x y. comparePassword sampleEnv x (hashPassword sampleEnv y) = (x = y)"
    by (auto simp: sampleEnv_simps)
  have nofix: "hashPassword sampleEnv (newPassword ?p) \<noteq> newPassword ?p"
    by (simp add: sampleEnv_simps)
  from changePassword_stores_double_hash [OF ok ne] ideal nofix obtain u where
    resp: "AuthDto_toResponse (alice\<lparr>password := ''$2b$$2b$NewSecret456!''\<rparr>) = AuthDto_toResponse u"
    and found: "AuthRepository_findByEmailWithPassword (email u) s' = Some u"
    and pw: "password u = hashPassword sampleEnv (hashPassword sampleEnv (newPassword ?p))"
    and bad: "\<not> comparePassword sampleEnv (newPassword ?p) (password u)"
    by blast
  from resp have em: "email u = ''a@x.com''"
    by (simp add: AuthDto_toResponse_def safeData_def alice_def)
  from resp have act: "isActive u \<and> \<not> isDeleted u"
    by (simp add: AuthDto_toResponse_def safeData_def alice_def)
  from found em have found': "AuthRepository_findByEmailWithPassword ''a@x.com'' s' = Some u"
    by simp
  have login: "fst (AuthService_login sampleEnv
                      \<lparr>l_email = ''a@x.com'', l_password = ''NewSecret456!''\<rparr> 160000 s')
               = Inl (AppErr (unauthorized ''Invalid email or password''
                                (fieldError ''email'' ''Invalid email or password'')))"
    using found' act bad by (simp add: AuthService_login_def)
  from pw have pw': "password u = ''$2b$$2b$NewSecret456!''"
    by (simp add: sampleEnv_simps)
  from run have s': "snd (AuthService_changePassword sampleEnv ''u1'' ?p 100000 aliceState) = s'"
    by simp
  from val found' pw' bad login show ?thesis
    unfolding s' by auto
qed

section \<open>C9: where a failed mail fails the operation\<close>

text \<open>
  C9. Take an environment whose mail transport fails every send and the same environment
  with a transport that delivers. \<open>signup\<close> and \<open>convertGuestToRegistered\<close> return the
  same result under both and leave the same user table and cache, and each of the two,
  when it succeeds with the failing transport, has logged the error
  "Failed to send verification email"; \<open>resendOtp\<close> and
  \<open>forgotPassword\<close>, wherever they succeed with the transport that delivers, fail with
  BadRequest with the one that fails.
\<close>

theorem mail_failure_fatal_only_where_critical:
  "fst (AuthService_signup (E\<lparr>sendEmail := (\<lambda>a b c. False)\<rparr>) p otp i now s)
     = fst (AuthService_signup (E\<lparr>sendEmail := (\<lambda>a b c. True)\<rparr>) p otp i now s)
   \<and> users (snd (AuthService_signup (E\<lparr>sendEmail := (\<lambda>a b c. False)\<rparr>) p otp i now s))
     = users (snd (AuthService_signup (E\<lparr>sendEmail := (\<lambda>a b c. True)\<rparr>) p otp i now s))
   \<and> cache (snd (AuthService_signup (E\<lparr>sendEmail := (\<lambda>a b c. False)\<rparr>) p otp i now s))
     = cache (snd (AuthService_signup (E\<lparr>sendEmail := (\<lambda>a b c. True)\<rparr>) p otp i now s))
   \<and> (\<forall>r. fst (AuthService_signup (E\<lparr>sendEmail := (\<lambda>a b c. False)\<rparr>) p otp i now s) = Inr r
          \<longrightarrow> (LError, ''Failed to send verification email'')
                \<in> set (logs (snd (AuthService_signup (E\<lparr>sendEmail := (\<lambda>a b c. False)\<rparr>) p otp i now s))))
   \<and> fst (AuthService_convertGuestToRegistered (E\<lparr>sendEmail := (\<lambda>a b c. False)\<rparr>) uid cp otp now s)
     = fst (AuthService_convertGuestToRegistered (E\<lparr>sendEmail := (\<lambda>a b c. True)\<rparr>) uid cp otp now s)
   \<and> users (snd (AuthService_convertGuestToRegistered (E\<lparr>sendEmail := (\<lambda>a b c. False)\<rparr>) uid cp otp now s))
     = users (snd (AuthService_convertGuestToRegistered (E\<lparr>sendEmail := (\<lambda>a b c. True)\<rparr>) uid cp otp now s))
   \<and> cache (snd (AuthService_convertGuestToRegistered (E\<lparr>sendEmail := (\<lambda>a b c. False)\<rparr>) uid cp otp now s))
     = cache (snd (AuthService_convertGuestToRegistered (E\<lparr>sendEmail := (\<lambda>a b c. True)\<rparr>) uid cp otp now s))
   \<and> (\<forall>r. fst (AuthService_convertGuestToRegistered (E\<lparr>sendEmail := (\<lambda>a b c. False)\<rparr>) uid cp otp now s) = Inr r
          \<longrightarrow> (LError, ''Failed to send verification email'')
                \<in> set (logs (snd (AuthService_convertGuestToRegistered
                                     (E\<lparr>sendEmail := (\<lambda>a b c. False)\<rparr>) uid cp otp now s))))
   \<and> (\<forall>r. fst (AuthService_resendOtp (E\<lparr>sendEmail := (\<lambda>a b c. True)\<rparr>) rp otp now s) = Inr r
          \<longrightarrow> fst (AuthService_resendOtp (E\<lparr>sendEmail := (\<lambda>a b c. False)\<rparr>) rp otp now s)
                = Inl (AppErr (badRequest ''Failed to send OTP email'' None)))
   \<and> (\<forall>r. fst (AuthService_forgotPassword (E\<lparr>sendEmail := (\<lambda>a b c. True)\<rparr>) em otp now s) = Inr r
          \<longrightarrow> fst (AuthService_forgotPassword (E\<lparr>sendEmail := (\<lambda>a b c. False)\<rparr>) em otp now s)
                = Inl (AppErr (badRequest ''Failed to send password reset email'' None)))"
proof -
  note su = signup_mail [where E = E and f = "\<lambda>a b c. False" and p = p and otp = otp and i = i
      and now = now and s = s]
    signup_mail [where E = E and f = "\<lambda>a b c. True" and p = p and otp = otp and i = i
      and now = now and s = s]
  note cv = convert_mail [where E = E and f = "\<lambda>a b c. False" and i = uid and p = cp
      and otp = otp and now = now and s = s]
    convert_mail [where E = E and f = "\<lambda>a b c. True" and i = uid and p = cp
      and otp = otp and now = now and s = s]
  have lg: "\<forall>r. fst (AuthService_signup (E\<lparr>sendEmail := (\<lambda>a b c. False)\<rparr>) p otp i now s) = Inr r
          \<longrightarrow> (LError, ''Failed to send verification email'')
                \<in> set (logs (snd (AuthService_signup (E\<lparr>sendEmail := (\<lambda>a b c. False)\<rparr>) p otp i now s)))"
    by (rule allI, rule impI, rule signup_mail_logged)
  have lc: "\<forall>r. fst (AuthService_convertGuestToRegistered (E\<lparr>sendEmail := (\<lambda>a b c. False)\<rparr>) uid cp otp now s) = Inr r
          \<longrightarrow> (LError, ''Failed to send verification email'')
                \<in> set (logs (snd (AuthService_convertGuestToRegistered
                                     (E\<lparr>sendEmail := (\<lambda>a b c. False)\<rparr>) uid cp otp now s)))"
    by (rule allI, rule impI, rule convert_mail_logged)
  from su cv lg lc
    resendOtp_mail [where E = E and p = rp and otp = otp and now = now and s = s]
    forgotPassword_mail [where E = E and em = em and otp = otp and now = now and s = s]
  show ?thesis by simp
qed

theorem mail_failure_fatal_only_where_critical_witness:
  "fst (AuthService_signup (sampleEnv\<lparr>sendEmail := (\<lambda>a b c. False)\<rparr>) carolSignup ''123456'' ''u3''
          100000 emptyState)
     = Inr (AuthDto_toSignupResponse carol)
   \<and> (LError, ''Failed to send verification email'')
       \<in> set (logs (snd (AuthService_signup (sampleEnv\<lparr>sendEmail := (\<lambda>a b c. False)\<rparr>) carolSignup
                           ''123456'' ''u3'' 100000 emptyState)))
   \<and> \<not> isl (fst (AuthService_convertGuestToRegistered (sampleEnv\<lparr>sendEmail := (\<lambda>a b c. False)\<rparr>)
                     ''g1'' \<lparr>cg_email = ''g@x.com'', cg_password = ''Secret123!'', cg_username = None\<rparr>
                     ''123456'' 120000 guestSeenState))
   \<and> (LError, ''Failed to send verification email'')
       \<in> set (logs (snd (AuthService_convertGuestToRegistered
                            (sampleEnv\<lparr>sendEmail := (\<lambda>a b c. False)\<rparr>) ''g1''
                            \<lparr>cg_email = ''g@x.com'', cg_password = ''Secret123!'', cg_username = None\<rparr>
                            ''123456'' 120000 guestSeenState)))
   \<and> fst (AuthService_resendOtp (sampleEnv\<lparr>sendEmail := (\<lambda>a b c. True)\<rparr>)
            \<lparr>r_email = ''a@x.com'', r_type = EmailVerification\<rparr> ''123456'' 100000 aliceState)
       = Inr (EmailResponse ''a@x.com'')
   \<and> fst (AuthService_resendOtp (sampleEnv\<lparr>sendEmail := (\<lambda>a b c. False)\<rparr>)
            \<lparr>r_email = ''a@x.com'', r_type = EmailVerification\<rparr> ''123456'' 100000 aliceState)
       = Inl (AppErr (badRequest ''Failed to send OTP email'' None))
   \<and> fst (AuthService_forgotPassword (sampleEnv\<lparr>sendEmail := (\<lambda>a b c. True)\<rparr>)
            ''a@x.com'' ''123456'' 100000 aliceState)
       = Inr (EmailResponse ''a@x.com'')
   \<and> fst (AuthService_forgotPassword (sampleEnv\<lparr>sendEmail := (\<lambda>a b c. False)\<rparr>)
            ''a@x.com'' ''123456'' 100000 aliceState)
       = Inl (AppErr (badRequest ''Failed to send password reset email'' None))"
proof -
  note run_defs = repo_defs prisma_defs cache_defs Let_def sampleEnv_simps
  have su: "fst (AuthService_signup (sampleEnv\<lparr>sendEmail := (\<lambda>a b c. True)\<rparr>) carolSignup ''123456''
                   ''u3'' 100000 emptyState)
            = Inr (AuthDto_toSignupResponse carol)"
    by (simp add: AuthService_signup_def sendVerificationMail_def run_defs carolSignup_def
        carol_def emptyState_def)
  have rs: "fst (AuthService_resendOtp (sampleEnv\<lparr>sendEmail := (\<lambda>a b c. True)\<rparr>)
                   \<lparr>r_email = ''a@x.com'', r_type = EmailVerification\<rparr> ''123456'' 100000 aliceState)
            = Inr (EmailResponse ''a@x.com'')"
    by (simp add: AuthService_resendOtp_def run_defs aliceState_def alice_def)
  have fp: "fst (AuthService_forgotPassword (sampleEnv\<lparr>sendEmail := (\<lambda>a b c. True)\<rparr>)
                   ''a@x.com'' ''123456'' 100000 aliceState)
            = Inr (EmailResponse ''a@x.com'')"
    by (simp add: AuthService_forgotPassword_def run_defs aliceState_def alice_def)
  have cv: "\<not> isl (fst (AuthService_convertGuestToRegistered
                           (sampleEnv\<lparr>sendEmail := (\<lambda>a b c. True)\<rparr>) ''g1''
                           \<lparr>cg_email = ''g@x.com'', cg_password = ''Secret123!'', cg_username = None\<rparr>
                           ''123456'' 120000 guestSeenState))"
    by (simp add: guestSeenState_def guestState_def guestRequest_def emptyState_def
        AuthService_guestLogin_def AuthService_convertGuestToRegistered_def authenticate_def
        showNat_100000 issueTokens_def tokenPayloadOf_def verifyToken_def tokenLive_def
        truthy_def requestToken_def authProjection_def sendVerificationMail_def dto_defs
        error_defs run_defs)
  note claim = mail_failure_fatal_only_where_critical
  from claim [where E = sampleEnv and p = carolSignup and otp = "''123456''" and i = "''u3''"
      and now = 100000 and s = emptyState] su
  have a: "fst (AuthService_signup (sampleEnv\<lparr>sendEmail := (\<lambda>a b c. False)\<rparr>) carolSignup ''123456''
                  ''u3'' 100000 emptyState)
           = Inr (AuthDto_toSignupResponse carol)"
    and b: "(LError, ''Failed to send verification email'')
       \<in> set (logs (snd (AuthService_signup (sampleEnv\<lparr>sendEmail := (\<lambda>a b c. False)\<rparr>) carolSignup
                           ''123456'' ''u3'' 100000 emptyState)))"
    by simp_all
  from claim [where E = sampleEnv and rp = "\<lparr>r_email = ''a@x.com'', r_type = EmailVerification\<rparr>"
      and em = "''a@x.com''" and otp = "''123456''" and now = 100000 and s = aliceState] rs fp
  have c: "fst (AuthService_resendOtp (sampleEnv\<lparr>sendEmail := (\<lambda>a b c. False)\<rparr>)
            \<lparr>r_email = ''a@x.com'', r_type = EmailVerification\<rparr> ''123456'' 100000 aliceState)
       = Inl (AppErr (badRequest ''Failed to send OTP email'' None))"
    and d: "fst (AuthService_forgotPassword (sampleEnv\<lparr>sendEmail := (\<lambda>a b c. False)\<rparr>)
            ''a@x.com'' ''123456'' 100000 aliceState)
       = Inl (AppErr (badRequest ''Failed to send password reset email'' None))"
    by simp_all
  from claim [where E = sampleEnv and uid = "''g1''"
      and cp = "\<lparr>cg_email = ''g@x.com'', cg_password = ''Secret123!'', cg_username = None\<rparr>"
      and otp = "''123456''" and now = 120000 and s = guestSeenState] cv
  have e: "\<not> isl (fst (AuthService_convertGuestToRegistered
                          (sampleEnv\<lparr>sendEmail := (\<lambda>a b c. False)\<rparr>) ''g1''
                          \<lparr>cg_email = ''g@x.com'', cg_password = ''Secret123!'', cg_username = None\<rparr>
                          ''123456'' 120000 guestSeenState))"
    by simp
  from e obtain r where
    ok: "fst (AuthService_convertGuestToRegistered
                (sampleEnv\<lparr>sendEmail := (\<lambda>a b c. False)\<rparr>) ''g1''
                \<lparr>cg_email = ''g@x.com'', cg_password = ''Secret123!'', cg_username = None\<rparr>
                ''123456'' 120000 guestSeenState) = Inr r"
    by (cases "fst (AuthService_convertGuestToRegistered
                (sampleEnv\<lparr>sendEmail := (\<lambda>a b c. False)\<rparr>) ''g1''
                \<lparr>cg_email = ''g@x.com'', cg_password = ''Secret123!'', cg_username = None\<rparr>
                ''123456'' 120000 guestSeenState)") simp_all
  from claim [where E = sampleEnv and uid = "''g1''"
      and cp = "\<lparr>cg_email = ''g@x.com'', cg_password = ''Secret123!'', cg_username = None\<rparr>"
      and otp = "''123456''" and now = 120000 and s = guestSeenState] ok
  have g: "(LError, ''Failed to send verification email'')
       \<in> set (logs (snd (AuthService_convertGuestToRegistered
                            (sampleEnv\<lparr>sendEmail := (\<lambda>a b c. False)\<rparr>) ''g1''
                            \<lparr>cg_email = ''g@x.com'', cg_password = ''Secret123!'', cg_username = None\<rparr>
                            ''123456'' 120000 guestSeenState)))"
    by simp
  from a b rs c fp d e g show ?thesis by simp
qed

section \<open>C5: when signup reports a conflict\<close>

text \<open>
  C5 as the code has it. \<open>signup\<close> fails with Conflict("Email already exists") exactly
  when \<open>findByEmail\<close> finds a user for the email: a live entry of the user cache under
  the email, or a row of the user table with that email. Whether the row is soft-deleted
  plays no part: the lookup does not read \<open>isDeleted\<close>. When signup fails so, the user
  table is the one it found.
\<close>

theorem signup_conflict_iff_found:
  "(fst (AuthService_signup E p otp newId now s)
      = Inl (AppErr (conflict ''Email already exists''
                       (fieldError ''email'' ''Email already exists''))))
   = (cacheGetUser (makeKey [''user'', ''email'', su_email p]) now s \<noteq> None
      \<or> prisma_user_findUnique (ByEmail (su_email p)) s \<noteq> None)
   \<and> (fst (AuthService_signup E p otp newId now s)
         = Inl (AppErr (conflict ''Email already exists''
                          (fieldError ''email'' ''Email already exists'')))
       \<longrightarrow> users (snd (AuthService_signup E p otp newId now s)) = users s)"
proof -
  let ?conflict = "Inl (AppErr (conflict ''Email already exists''
                                  (fieldError ''email'' ''Email already exists'')))"
  obtain found s1 where a: "AuthRepository_findByEmail (su_email p) True now s = (found, s1)"
    by (cases "AuthRepository_findByEmail (su_email p) True now s")
  from a have s1: "users s1 = users s"
    using findByEmail_users [of "su_email p" True now s] by simp
  from a have hit: "(found \<noteq> None)
      = (cacheGetUser (makeKey [''user'', ''email'', su_email p]) now s \<noteq> None
         \<or> prisma_user_findUnique (ByEmail (su_email p)) s \<noteq> None)"
    using findByEmail_found [of "su_email p" now s] by simp
  show ?thesis
  proof (cases found)
    case (Some existingUser)
    with a have "AuthService_signup E p otp newId now s = (?conflict, s1)"
      by (simp add: AuthService_signup_def)
    with Some hit s1 show ?thesis by simp
  next
    case None
    obtain r2 s2 where b: "AuthRepository_create E
        \<lparr>c_username = su_username p, c_email = su_email p, c_phone = su_phone p,
         c_password = su_password p, c_signupMethod = su_signupMethod p,
         c_isEmailVerified = None, c_profilePicture = None, c_userType = None\<rparr> newId now s1
        = (r2, s2)"
      by (cases "AuthRepository_create E
        \<lparr>c_username = su_username p, c_email = su_email p, c_phone = su_phone p,
         c_password = su_password p, c_signupMethod = su_signupMethod p,
         c_isEmailVerified = None, c_profilePicture = None, c_userType = None\<rparr> newId now s1")
    obtain r3 s3 where c: "AuthRepository_updateOtp E (su_email p) otp (now + 600000) s2 = (r3, s3)"
      by (cases "AuthRepository_updateOtp E (su_email p) otp (now + 600000) s2")
    have "fst (AuthService_signup E p otp newId now s) \<noteq> ?conflict"
    proof (cases r2)
      case (Inl e)
      with b create_Inl obtain c where "e = PrismaErr c" by blast
      with a None b Inl show ?thesis by (simp add: AuthService_signup_def)
    next
      case r2: (Inr user)
      show ?thesis
      proof (cases r3)
        case (Inl e)
        with c updateOtp_Inl obtain c' where "e = PrismaErr c'" by blast
        with a None b r2 c Inl show ?thesis by (simp add: AuthService_signup_def)
      next
        case (Inr u3)
        with a None b r2 c show ?thesis by (simp add: AuthService_signup_def Let_def)
      qed
    qed
    with None hit show ?thesis by simp
  qed
qed

theorem signup_conflict_iff_found_witness:
  "prisma_user_findUnique (ByEmail ''a@x.com'') aliceState = Some alice
   \<and> fst (AuthService_signup sampleEnv (carolSignup\<lparr>su_email := ''a@x.com''\<rparr>) ''123456'' ''u3''
            100000 aliceState)
       = Inl (AppErr (conflict ''Email already exists''
                        (fieldError ''email'' ''Email already exists'')))
   \<and> users (snd (AuthService_signup sampleEnv (carolSignup\<lparr>su_email := ''a@x.com''\<rparr>) ''123456''
                    ''u3'' 100000 aliceState)) = [alice]"
proof -
  have f: "prisma_user_findUnique (ByEmail ''a@x.com'') aliceState = Some alice"
    by (simp add: prisma_user_findUnique_def aliceState_def alice_def)
  have e: "su_email (carolSignup\<lparr>su_email := ''a@x.com''\<rparr>) = ''a@x.com''"
    by simp
  have u: "users aliceState = [alice]"
    by (simp add: aliceState_def)
  from signup_conflict_iff_found [of sampleEnv "carolSignup\<lparr>su_email := ''a@x.com''\<rparr>"
      "''123456''" "''u3''" 100000 aliceState] f u
  show ?thesis unfolding e by simp
qed

theorem signup_soft_deleted_counterexample:
  "map (\<lambda>u. (email u, isDeleted u)) (users deletedState) = [(''d@x.com'', True)]
   \<and> fst (AuthService_signup sampleEnv (carolSignup\<lparr>su_email := ''d@x.com''\<rparr>) ''123456'' ''u3''
            100000 deletedState)
       = Inl (AppErr (conflict ''Email already exists''
                        (fieldError ''email'' ''Email already exists'')))"
  by (simp add: AuthService_signup_def AuthRepository_findByEmail_def prisma_user_findUnique_def
      cache_defs deletedState_def dave_def alice_def carolSignup_def)

section \<open>C1: when verifyOtp succeeds, and what a success consumes\<close>

text \<open>
  C1 as the code has it. \<open>verifyOtp\<close> lets a code through exactly when the code is not
  empty and either equals the live cache entry for the email and the type, or equals the
  code stored on the user with that email (a copy that has no type) while the stored
  expiry is not before the time of the call; a code that is not let through fails with
  BadRequest and changes nothing. The call then succeeds, except that a verification of
  type emailVerification needs the user to exist. After a successful verification of
  type emailVerification, a second call with the same email, code and type fails with
  BadRequest("Invalid or expired OTP code"), at any later time. (What a second call does
  after a verification of type forgotPassword is not stated here.)
\<close>

theorem verifyOtp_accepts_and_consumes:
  "((\<exists>r. fst (AuthService_verifyOtp E p now s) = Inr r)
      = (otpAccepted p now s
         \<and> (v_type p = EmailVerification
              \<longrightarrow> prisma_user_findUnique (ByEmail (v_email p)) s \<noteq> None)))
   \<and> (\<not> otpAccepted p now s
        \<longrightarrow> (\<exists>e. AuthService_verifyOtp E p now s = (Inl (AppErr e), s)
                  \<and> statusCode e = BAD_REQUEST))
   \<and> (\<forall>r s'. v_type p = EmailVerification \<and> AuthService_verifyOtp E p now s = (Inr r, s')
        \<longrightarrow> AuthService_verifyOtp E p now' s'
              = (Inl (AppErr (badRequest ''Invalid or expired OTP code''
                                (fieldError ''otp'' ''Invalid or expired OTP code''))), s'))"
proof -
  obtain c where chk: "otpCheck p now s = (c, s)"
    using otpCheck_state [of p now s] by (cases "otpCheck p now s") simp
  show ?thesis
  proof (cases c)
    case (Some e)
    with chk have rej: "\<not> otpAccepted p now s"
      using otpCheck_accepts [of p now s] by simp
    from chk Some have bad: "statusCode e = BAD_REQUEST"
      using otpCheck_rejects [of p now s e] by simp
    from chk Some have "AuthService_verifyOtp E p now s = (Inl (AppErr e), s)"
      by (simp add: verifyOtp_rejected)
    with rej bad show ?thesis by simp
  next
    case None
    with chk have acc: "otpAccepted p now s"
      using otpCheck_accepts [of p now s] by simp
    from chk None have passed: "otpCheck p now s = (None, s)" by simp
    show ?thesis
    proof (cases "v_type p")
      case ForgotPassword
      with passed acc show ?thesis
        by (simp add: verifyOtp_forgotPassword_passed)
    next
      case EmailVerification
      show ?thesis
      proof (cases "prisma_user_findUnique (ByEmail (v_email p)) s")
        case None
        with passed EmailVerification acc show ?thesis
          by (simp add: verifyOtp_emailVerification_absent)
      next
        case (Some u0)
        from verifyOtp_emailVerification_passed [OF passed EmailVerification Some, of E now']
        obtain r s' where
          "AuthService_verifyOtp E p now s = (Inr r, s')"
          "AuthService_verifyOtp E p now' s'
             = (Inl (AppErr (badRequest ''Invalid or expired OTP code''
                               (fieldError ''otp'' ''Invalid or expired OTP code''))), s')"
          by blast
        with acc Some show ?thesis by simp
      qed
    qed
  qed
qed

theorem verifyOtp_accepts_and_consumes_witness:
  "otpAccepted \<lparr>v_email = ''c@x.com'', v_otp = ''123456'', v_type = EmailVerification\<rparr> 160000
     signedUpState
   \<and> \<not> isl (fst (AuthService_verifyOtp sampleEnv
                     \<lparr>v_email = ''c@x.com'', v_otp = ''123456'', v_type = EmailVerification\<rparr> 160000
                     signedUpState))
   \<and> fst (AuthService_verifyOtp sampleEnv
            \<lparr>v_email = ''c@x.com'', v_otp = ''123456'', v_type = EmailVerification\<rparr> 220000
            (snd (AuthService_verifyOtp sampleEnv
                    \<lparr>v_email = ''c@x.com'', v_otp = ''123456'', v_type = EmailVerification\<rparr> 160000
                    signedUpState)))
       = Inl (AppErr (badRequest ''Invalid or expired OTP code''
                        (fieldError ''otp'' ''Invalid or expired OTP code'')))
   \<and> \<not> otpAccepted \<lparr>v_email = ''c@x.com'', v_otp = ''654321'', v_type = EmailVerification\<rparr> 160000
         signedUpState
   \<and> isl (fst (AuthService_verifyOtp sampleEnv
                  \<lparr>v_email = ''c@x.com'', v_otp = ''654321'', v_type = EmailVerification\<rparr> 160000
                  signedUpState))"
proof -
  let ?ok = "\<lparr>v_email = ''c@x.com'', v_otp = ''123456'', v_type = EmailVerification\<rparr>"
  let ?bad = "\<lparr>v_email = ''c@x.com'', v_otp = ''654321'', v_type = EmailVerification\<rparr>"
  note run_defs = repo_defs prisma_defs cache_defs Let_def sampleEnv_simps
  have users: "users signedUpState
               = [carol\<lparr>otpCode := Some ''123456'', otpExpiresAt := Some 700000\<rparr>]"
    by (simp add: signedUpState_def AuthService_signup_def sendVerificationMail_def run_defs
        carolSignup_def carol_def emptyState_def)
  have cached: "AuthRepository_getOtpCache ''c@x.com'' ''emailVerification'' 160000 signedUpState
                = Some ''123456''"
    by (simp add: signedUpState_def AuthService_signup_def sendVerificationMail_def run_defs
        carolSignup_def carol_def emptyState_def)
  have found: "prisma_user_findUnique (ByEmail ''c@x.com'') signedUpState
               = Some (carol\<lparr>otpCode := Some ''123456'', otpExpiresAt := Some 700000\<rparr>)"
    by (simp add: prisma_user_findUnique_def users carol_def)
  have acc: "otpAccepted ?ok 160000 signedUpState"
    by (simp add: otpAccepted_def cached)
  have rej: "\<not> otpAccepted ?bad 160000 signedUpState"
    by (simp add: otpAccepted_def cached found)
  note claim = verifyOtp_accepts_and_consumes
  from claim [of sampleEnv ?ok 160000 signedUpState 220000] acc found
  obtain r where r: "fst (AuthService_verifyOtp sampleEnv ?ok 160000 signedUpState) = Inr r"
    by auto
  then have first: "AuthService_verifyOtp sampleEnv ?ok 160000 signedUpState
                    = (Inr r, snd (AuthService_verifyOtp sampleEnv ?ok 160000 signedUpState))"
    by (cases "AuthService_verifyOtp sampleEnv ?ok 160000 signedUpState") simp
  from claim [of sampleEnv ?ok 160000 signedUpState 220000] first
  have second: "fst (AuthService_verifyOtp sampleEnv ?ok 220000
                       (snd (AuthService_verifyOtp sampleEnv ?ok 160000 signedUpState)))
                = Inl (AppErr (badRequest ''Invalid or expired OTP code''
                                 (fieldError ''otp'' ''Invalid or expired OTP code'')))"
    by auto
  from claim [of sampleEnv ?bad 160000 signedUpState 220000] rej
  have third: "isl (fst (AuthService_verifyOtp sampleEnv ?bad 160000 signedUpState))"
    by auto
  from acc r second rej third show ?thesis by simp
qed

theorem verifyOtp_reuse_counterexample:
  "AuthRepository_getOtpCache ''a@x.com'' ''forgotPassword'' 160000 resetStagedState = Some ''123456''
   \<and> AuthRepository_getOtpCache ''a@x.com'' ''emailVerification'' 160000 resetStagedState = None
   \<and> fst (AuthService_verifyOtp sampleEnv
            \<lparr>v_email = ''a@x.com'', v_otp = ''123456'', v_type = ForgotPassword\<rparr> 160000
            resetStagedState)
       = Inr (VerifiedResponse True ''a@x.com'')
   \<and> fst (AuthService_verifyOtp sampleEnv
            \<lparr>v_email = ''a@x.com'', v_otp = ''123456'', v_type = ForgotPassword\<rparr> 220000
            (snd (AuthService_verifyOtp sampleEnv
                    \<lparr>v_email = ''a@x.com'', v_otp = ''123456'', v_type = ForgotPassword\<rparr> 160000
                    resetStagedState)))
       = Inr (VerifiedResponse True ''a@x.com'')
   \<and> fst (AuthService_verifyOtp sampleEnv
            \<lparr>v_email = ''a@x.com'', v_otp = ''123456'', v_type = EmailVerification\<rparr> 160000
            resetStagedState)
       = Inr (AuthDto_toLoginResponse (alice\<lparr>isEmailVerified := True\<rparr>)
                \<lparr>t_accessToken = ''access:u1'', t_refreshToken = ''r1:u1''\<rparr>)"
  by (simp add: resetStagedState_def AuthService_forgotPassword_def AuthService_verifyOtp_def
      otpCheck_def issueTokens_def tokenPayloadOf_def dto_defs error_defs repo_defs prisma_defs
      cache_defs Let_def sampleEnv_simps aliceState_def alice_def)

section \<open>C3: a rotated refresh token cannot be used again\<close>

text \<open>
  C3. In a state whose user cache holds, under every id, a user of that id: when
  \<open>refreshToken(tokenA)\<close> succeeds and the refresh token it returns is not \<open>tokenA\<close>,
  the new token is the one stored on the user, and in the state the call leaves a
  \<open>refreshToken(tokenA)\<close> at any time fails with Unauthorized. Unless the old token has
  meanwhile been revoked or has expired (both Unauthorized too), the failure is the one
  of the comparison with the stored token: "Invalid refresh token".
\<close>

theorem refreshToken_rotation_invalidates:
  assumes inv: "userCacheKeyed s"
    and ok: "AuthService_refreshToken E tokenA now s = (Inr (LoginResponse su toks), s')"
    and new: "t_refreshToken toks \<noteq> tokenA"
  shows "(\<exists>e. fst (AuthService_refreshToken E tokenA now' s') = Inl (AppErr e)
               \<and> statusCode e = UNAUTHORIZED)
         \<and> (\<not> AuthRepository_isTokenBlacklisted tokenA now' s'
              \<and> verifyRefreshToken E tokenA now' \<noteq> None
            \<longrightarrow> fst (AuthService_refreshToken E tokenA now' s')
                  = Inl (AppErr (unauthorized ''Invalid refresh token'' None)))
         \<and> (\<exists>u. prisma_user_findUnique (ById (s_id su)) s' = Some u
                  \<and> refreshToken u = Some (t_refreshToken toks))"
proof -
  from ok have nb: "\<not> AuthRepository_isTokenBlacklisted tokenA now s"
    by (auto simp: AuthService_refreshToken_def split: if_splits)
  with ok obtain d where d: "verifyRefreshToken E tokenA now = Some d"
    by (auto simp: AuthService_refreshToken_def split: option.splits)
  with ok nb obtain i where i: "jwt_id d = Some i"
    by (auto simp: AuthService_refreshToken_def split: option.splits)
  obtain found s1 where fb: "AuthRepository_findById i now s = (found, s1)"
    by (cases "AuthRepository_findById i now s")
  with ok nb d i obtain user where user: "found = Some user"
    by (cases found) (auto simp: AuthService_refreshToken_def)
  from ok nb d i fb user have it: "issueTokens E user now s1 = (Inr (LoginResponse su toks), s')"
    by (auto simp: AuthService_refreshToken_def split: if_splits)
  from inv fb user have uid: "user_id user = i"
    using findById_keyed by blast
  from issueTokens_Inr [OF it] obtain u where
    resp: "LoginResponse su toks
           = AuthDto_toLoginResponse user (generateTokens E (tokenPayloadOf user) now)"
    and ur: "AuthRepository_updateRefreshToken E (user_id user)
               (Some (t_refreshToken (generateTokens E (tokenPayloadOf user) now))) s1 = (Inr u, s')"
    by blast
  from resp have toks: "toks = generateTokens E (tokenPayloadOf user) now"
    and su: "s_id su = user_id user"
    by (auto simp: dto_defs)
  from updateRefreshToken_Inr [OF ur] uid toks obtain u0 where
    u: "u = u0\<lparr>refreshToken := Some (t_refreshToken toks)\<rparr>"
    and stored: "prisma_user_findUnique (ById i) s' = Some u"
    and c': "cache s' = (cache s1)(makeKey [''user'', i] := None)"
    by auto
  from c' have miss: "cache s' (makeKey [''user'', i]) = None"
    by simp
  from u new have differs: "refreshToken u \<noteq> Some tokenA"
    by simp
  from d obtain dec: "decodeRefreshToken E tokenA = Some d"
    by (auto simp: verifyRefreshToken_def split: option.splits if_splits)
  have run: "fst (AuthService_refreshToken E tokenA now' s')
             = (if AuthRepository_isTokenBlacklisted tokenA now' s'
                then Inl (AppErr (unauthorized ''Token has been revoked'' None))
                else if tokenLive d now'
                then Inl (AppErr (unauthorized ''Invalid refresh token'' None))
                else Inl (AppErr (unauthorized ''Invalid or expired refresh token'' None)))"
  proof -
    obtain found' s2 where fb': "AuthRepository_findById i now' s' = (found', s2)"
      by (cases "AuthRepository_findById i now' s'")
    with findById_uncached [OF miss, of now'] stored have "found' = Some u"
      by simp
    with fb' differs dec i show ?thesis
      by (simp add: AuthService_refreshToken_def verifyRefreshToken_def)
  qed
  have first: "\<exists>e. fst (AuthService_refreshToken E tokenA now' s') = Inl (AppErr e)
                   \<and> statusCode e = UNAUTHORIZED"
    unfolding run by (simp add: unauthorized_def)
  have second: "\<not> AuthRepository_isTokenBlacklisted tokenA now' s'
                  \<and> verifyRefreshToken E tokenA now' \<noteq> None
                \<longrightarrow> fst (AuthService_refreshToken E tokenA now' s')
                      = Inl (AppErr (unauthorized ''Invalid refresh token'' None))"
    unfolding run using dec by (simp add: verifyRefreshToken_def)
  from stored u su uid have third: "\<exists>u. prisma_user_findUnique (ById (s_id su)) s' = Some u
                  \<and> refreshToken u = Some (t_refreshToken toks)"
    by simp
  from first second third show ?thesis by blast
qed

theorem refreshToken_rotation_invalidates_witness:
  "userCacheKeyed tokenState
   \<and> fst (AuthService_refreshToken sampleEnv ''r1:u1'' 250000 tokenState)
       = Inr (LoginResponse (safeData (alice\<lparr>refreshToken := Some ''r1:u1''\<rparr>))
                \<lparr>t_accessToken = ''access:u1'', t_refreshToken = ''r2:u1''\<rparr>)
   \<and> ''r2:u1'' \<noteq> ''r1:u1''
   \<and> fst (AuthService_refreshToken sampleEnv ''r1:u1'' 300000
            (snd (AuthService_refreshToken sampleEnv ''r1:u1'' 250000 tokenState)))
       = Inl (AppErr (unauthorized ''Invalid refresh token'' None))
   \<and> map_option refreshToken
         (prisma_user_findUnique (ById ''u1'')
            (snd (AuthService_refreshToken sampleEnv ''r1:u1'' 250000 tokenState)))
       = Some (Some ''r2:u1'')"
proof -
  note run_defs = AuthService_refreshToken_def issueTokens_def tokenPayloadOf_def
    verifyRefreshToken_def tokenLive_def dto_defs error_defs repo_defs prisma_defs cache_defs
    Let_def sampleEnv_simps tokenState_def alice_def
  let ?su = "safeData (alice\<lparr>refreshToken := Some ''r1:u1''\<rparr>)"
  let ?toks = "\<lparr>t_accessToken = ''access:u1'', t_refreshToken = ''r2:u1''\<rparr>"
  let ?s' = "snd (AuthService_refreshToken sampleEnv ''r1:u1'' 250000 tokenState)"
  have inv: "userCacheKeyed tokenState"
    by (simp add: userCacheKeyed_def tokenState_def)
  have val: "fst (AuthService_refreshToken sampleEnv ''r1:u1'' 250000 tokenState)
             = Inr (LoginResponse ?su ?toks)"
    by (simp add: run_defs)
  then have ok: "AuthService_refreshToken sampleEnv ''r1:u1'' 250000 tokenState
                 = (Inr (LoginResponse ?su ?toks), ?s')"
    by (cases "AuthService_refreshToken sampleEnv ''r1:u1'' 250000 tokenState") simp
  have new: "t_refreshToken ?toks \<noteq> ''r1:u1''"
    by simp
  have nb: "\<not> AuthRepository_isTokenBlacklisted ''r1:u1'' 300000 ?s'"
    by (simp add: run_defs)
  have live: "verifyRefreshToken sampleEnv ''r1:u1'' 300000 \<noteq> None"
    by (simp add: verifyRefreshToken_def tokenLive_def sampleEnv_simps)
  have sid: "s_id ?su = ''u1''"
    by (simp add: safeData_def alice_def)
  from refreshToken_rotation_invalidates [OF inv ok new, of 300000] nb live
  have second: "fst (AuthService_refreshToken sampleEnv ''r1:u1'' 300000 ?s')
                = Inl (AppErr (unauthorized ''Invalid refresh token'' None))"
    and third: "\<exists>u. prisma_user_findUnique (ById (s_id ?su)) ?s' = Some u
                  \<and> refreshToken u = Some (t_refreshToken ?toks)"
    by blast+
  from third have "map_option refreshToken (prisma_user_findUnique (ById ''u1'') ?s')
                   = Some (Some ''r2:u1'')"
    unfolding sid by auto
  with inv val second show ?thesis by simp
qed

section \<open>C8: responses carry no credential material of the user\<close>

text \<open>
  C8. Whatever operation of the service is called, when it succeeds every user
  representation in its result has \<open>password\<close>, \<open>otpCode\<close>, \<open>otpExpiresAt\<close> and
  \<open>refreshToken\<close> undefined; and the operations the claim lists (signup, login,
  verifyOtp of an email, resetPassword, refreshToken, changePassword, getMe,
  updateProfile, googleAuth, guestLogin, convertGuestToRegistered) do return a user
  representation.
\<close>

theorem responses_are_sanitized:
  assumes "fst (AuthService_call E c now s) = Inr r"
  shows "(\<forall>u. responseUser r = Some u \<longrightarrow> stripped u)
         \<and> (returnsUser c \<longrightarrow> responseUser r \<noteq> None)"
proof -
  from assms have "AuthService_call E c now s = (Inr r, snd (AuthService_call E c now s))"
    by (cases "AuthService_call E c now s") simp
  from call_response [OF this] show ?thesis
    by (auto simp: stripped_safeData split: if_splits)
qed

theorem responses_are_sanitized_witness:
  "fst (AuthService_call sampleEnv (CallGetMe ''u1'') 100000 tokenState)
     = Inr (UserResponse (safeData (alice\<lparr>refreshToken := Some ''r1:u1''\<rparr>)))
   \<and> password (alice\<lparr>refreshToken := Some ''r1:u1''\<rparr>) = ''$2b$Secret123!''
   \<and> s_password (safeData (alice\<lparr>refreshToken := Some ''r1:u1''\<rparr>)) = None
   \<and> s_refreshToken (safeData (alice\<lparr>refreshToken := Some ''r1:u1''\<rparr>)) = None
   \<and> s_otpCode (safeData (alice\<lparr>refreshToken := Some ''r1:u1''\<rparr>)) = None
   \<and> s_otpExpiresAt (safeData (alice\<lparr>refreshToken := Some ''r1:u1''\<rparr>)) = None
   \<and> fst (AuthService_call sampleEnv
            (CallLogin \<lparr>l_email = ''a@x.com'', l_password = ''Secret123!''\<rparr>) 100000 aliceState)
       = Inr (LoginResponse (safeData alice)
                \<lparr>t_accessToken = ''access:u1'', t_refreshToken = ''r1:u1''\<rparr>)
   \<and> stripped (safeData alice)"
proof -
  let ?u = "alice\<lparr>refreshToken := Some ''r1:u1''\<rparr>"
  have me: "fst (AuthService_call sampleEnv (CallGetMe ''u1'') 100000 tokenState)
            = Inr (UserResponse (safeData ?u))"
    by (simp add: AuthService_getMe_def dto_defs repo_defs prisma_defs cache_defs
        tokenState_def alice_def)
  have login: "fst (AuthService_call sampleEnv
                      (CallLogin \<lparr>l_email = ''a@x.com'', l_password = ''Secret123!''\<rparr>) 100000
                      aliceState)
               = Inr (LoginResponse (safeData alice)
                        \<lparr>t_accessToken = ''access:u1'', t_refreshToken = ''r1:u1''\<rparr>)"
    by (simp add: AuthService_login_def issueTokens_def tokenPayloadOf_def dto_defs repo_defs
        prisma_defs cache_defs Let_def sampleEnv_simps aliceState_def alice_def)
  from responses_are_sanitized [OF me] have a: "stripped (safeData ?u)"
    by simp
  from responses_are_sanitized [OF login] have b: "stripped (safeData alice)"
    by simp
  have pw: "password ?u = ''$2b$Secret123!''"
    by (simp add: alice_def)
  from me login a b pw show ?thesis
    by (simp add: stripped_def)
qed

section \<open>C7: what the authentication middleware checks, and when\<close>

text \<open>
  C7 as the code has it. A request with no token, with a revoked token, with a token
  that does not verify or with a token that has no id claim fails with Unauthorized.
  Otherwise, when the middleware's own cache holds a live projection under the id, the
  request is accepted with that projection and nothing about the user is checked. When
  it holds none, the checks are made on the user that \<open>findById\<close> returns (from the user
  cache or the table): no user fails with Unauthorized; a deactivated or deleted user
  fails with Forbidden; an active, not deleted user who is not verified and not a GUEST
  fails with Unauthorized; an active, not deleted user who is verified or a GUEST is
  accepted, a GUEST whatever \<open>isEmailVerified\<close> is.
\<close>

theorem authenticate_gate:
  "(\<not> truthy (requestToken req)
      \<longrightarrow> failsWith UNAUTHORIZED (fst (authenticate E req now s)))
   \<and> (\<forall>token. requestToken req = Some token \<and> token \<noteq> [] \<longrightarrow>
        (AuthRepository_isTokenBlacklisted token now s
           \<longrightarrow> failsWith UNAUTHORIZED (fst (authenticate E req now s)))
        \<and> (\<not> AuthRepository_isTokenBlacklisted token now s \<longrightarrow>
             (verifyToken E token now = None
                \<longrightarrow> failsWith UNAUTHORIZED (fst (authenticate E req now s)))
             \<and> (\<forall>d. verifyToken E token now = Some d \<longrightarrow>
                  (\<not> truthy (jwt_id d)
                     \<longrightarrow> failsWith UNAUTHORIZED (fst (authenticate E req now s)))
                  \<and> (\<forall>i. jwt_id d = Some i \<and> i \<noteq> [] \<longrightarrow>
                       (\<forall>c. cacheGetAuthUser (makeKey [''auth'', ''user'', i]) now s = Some c
                          \<longrightarrow> fst (authenticate E req now s) = Inr c)
                       \<and> (cacheGetAuthUser (makeKey [''auth'', ''user'', i]) now s = None \<longrightarrow>
                            (fst (AuthRepository_findById i now s) = None
                               \<longrightarrow> failsWith UNAUTHORIZED (fst (authenticate E req now s)))
                            \<and> (\<forall>u. fst (AuthRepository_findById i now s) = Some u \<longrightarrow>
                                 (\<not> isActive u \<or> isDeleted u
                                    \<longrightarrow> failsWith FORBIDDEN (fst (authenticate E req now s)))
                                 \<and> (isActive u \<and> \<not> isDeleted u \<and> \<not> isEmailVerified u
                                      \<and> userType u \<noteq> GUEST
                                    \<longrightarrow> failsWith UNAUTHORIZED (fst (authenticate E req now s)))
                                 \<and> (isActive u \<and> \<not> isDeleted u
                                      \<and> (isEmailVerified u \<or> userType u = GUEST)
                                    \<longrightarrow> fst (authenticate E req now s)
                                          = Inr (authProjection u))))))))"
  by (auto simp: authenticate_def failsWith_def truthy_def unauthorized_def forbidden_def
      Let_def split: prod.splits option.splits)

theorem authenticate_gate_witness:
  "failsWith UNAUTHORIZED
     (fst (authenticate sampleEnv \<lparr>authorization = None, cookieAccessToken = None\<rparr> 100000 bobState))
   \<and> fst (AuthRepository_findById ''u2'' 100000 bobState) = Some bob
   \<and> \<not> isActive bob
   \<and> failsWith FORBIDDEN
       (fst (authenticate sampleEnv
               \<lparr>authorization = Some ''Bearer access:u2'', cookieAccessToken = None\<rparr> 100000 bobState))
   \<and> fst (AuthRepository_findById ''u1'' 100000 bobState) = Some alice
   \<and> isActive alice \<and> \<not> isDeleted alice \<and> isEmailVerified alice
   \<and> fst (authenticate sampleEnv
            \<lparr>authorization = Some ''Bearer access:u1'', cookieAccessToken = None\<rparr> 100000 bobState)
       = Inr (authProjection alice)
   \<and> map (\<lambda>u. (user_id u, userType u, isEmailVerified u)) (users signedUpState)
       = [(''u3'', REGISTERED, False)]
   \<and> failsWith UNAUTHORIZED
       (fst (authenticate sampleEnv
               \<lparr>authorization = Some ''Bearer access:u3'', cookieAccessToken = None\<rparr> 160000
               signedUpState))"
proof -
  note claim = authenticate_gate
  let ?none = "\<lparr>authorization = None, cookieAccessToken = None\<rparr>"
  let ?r1 = "\<lparr>authorization = Some ''Bearer access:u1'', cookieAccessToken = None\<rparr>"
  let ?r2 = "\<lparr>authorization = Some ''Bearer access:u2'', cookieAccessToken = None\<rparr>"
  let ?r3 = "\<lparr>authorization = Some ''Bearer access:u3'', cookieAccessToken = None\<rparr>"
  have a: "failsWith UNAUTHORIZED (fst (authenticate sampleEnv ?none 100000 bobState))"
    using claim [of ?none sampleEnv 100000 bobState]
    by (simp add: truthy_def requestToken_def)
  have nb: "\<not> AuthRepository_isTokenBlacklisted t 100000 bobState" for t
    by (simp add: AuthRepository_isTokenBlacklisted_def cache_defs bobState_def)
  have nc: "cacheGetAuthUser (makeKey [''auth'', ''user'', i]) 100000 bobState = None" for i
    by (simp add: cache_defs bobState_def)
  have t2: "requestToken ?r2 = Some ''access:u2''"
    and v2: "verifyToken sampleEnv ''access:u2'' 100000
             = Some \<lparr>jwt_id = Some ''u2'', jwt_exp = Some 1100\<rparr>"
    and f2: "fst (AuthRepository_findById ''u2'' 100000 bobState) = Some bob"
    and b2: "\<not> isActive bob"
    by (simp_all add: requestToken_def verifyToken_def tokenLive_def sampleEnv_simps
        AuthRepository_findById_def prisma_user_findUnique_def cache_defs bobState_def bob_def
        alice_def)
  have b: "failsWith FORBIDDEN (fst (authenticate sampleEnv ?r2 100000 bobState))"
    using claim [of ?r2 sampleEnv 100000 bobState] t2 v2 f2 b2 nb nc
    by simp
  have t1: "requestToken ?r1 = Some ''access:u1''"
    and v1: "verifyToken sampleEnv ''access:u1'' 100000
             = Some \<lparr>jwt_id = Some ''u1'', jwt_exp = Some 1100\<rparr>"
    and f1: "fst (AuthRepository_findById ''u1'' 100000 bobState) = Some alice"
    and b1: "isActive alice \<and> \<not> isDeleted alice \<and> isEmailVerified alice"
    by (simp_all add: requestToken_def verifyToken_def tokenLive_def sampleEnv_simps
        AuthRepository_findById_def prisma_user_findUnique_def cache_defs bobState_def bob_def
        alice_def)
  have c: "fst (authenticate sampleEnv ?r1 100000 bobState) = Inr (authProjection alice)"
    using claim [of ?r1 sampleEnv 100000 bobState] t1 v1 f1 b1 nb nc
    by simp
  note su_defs = signedUpState_def AuthService_signup_def carolSignup_def emptyState_def run_defs
  have users3: "users signedUpState
                = [carol\<lparr>otpCode := Some ''123456'', otpExpiresAt := Some 700000\<rparr>]"
    by (simp add: su_defs carol_def)
  have nb3: "\<not> AuthRepository_isTokenBlacklisted ''access:u3'' 160000 signedUpState"
    by (simp add: su_defs)
  have nc3: "cacheGetAuthUser (makeKey [''auth'', ''user'', ''u3'']) 160000 signedUpState = None"
    by (simp add: su_defs)
  have f3: "fst (AuthRepository_findById ''u3'' 160000 signedUpState)
            = Some (carol\<lparr>otpCode := Some ''123456'', otpExpiresAt := Some 700000\<rparr>)"
    by (simp add: su_defs carol_def)
  have t3: "requestToken ?r3 = Some ''access:u3''"
    and v3: "verifyToken sampleEnv ''access:u3'' 160000
             = Some \<lparr>jwt_id = Some ''u3'', jwt_exp = Some 1100\<rparr>"
    by (simp_all add: requestToken_def verifyToken_def tokenLive_def sampleEnv_simps)
  have d: "failsWith UNAUTHORIZED (fst (authenticate sampleEnv ?r3 160000 signedUpState))"
    using claim [of ?r3 sampleEnv 160000 signedUpState] t3 v3 f3 nb3 nc3
    by (simp add: carol_def)
  from a b c d f1 f2 b1 b2 users3 show ?thesis
    by (simp add: carol_def)
qed

theorem authenticate_stale_projection_counterexample:
  "map (\<lambda>u. (user_id u, userType u, isEmailVerified u, isActive u, isDeleted u))
       (users convertedState)
     = [(''g1'', REGISTERED, False, True, False)]
   \<and> requestToken guestRequest = Some ''access:g1''
   \<and> \<not> AuthRepository_isTokenBlacklisted ''access:g1'' 130000 convertedState
   \<and> verifyToken sampleEnv ''access:g1'' 130000
       = Some \<lparr>jwt_id = Some ''g1'', jwt_exp = Some 1100\<rparr>
   \<and> fst (authenticate sampleEnv guestRequest 130000 convertedState)
       = Inr \<lparr>a_id = ''g1'', a_username = ''Guest_100000'',
              a_email = ''guest_100000_abcdefg@guest.local'', a_role = USER,
              a_userType = GUEST, a_isEmailVerified = True, a_isActive = True\<rparr>"
proof -
  note guest_defs = convertedState_def guestSeenState_def guestState_def guestRequest_def
    emptyState_def AuthService_guestLogin_def AuthService_convertGuestToRegistered_def
    authenticate_def showNat_100000
  have users: "map (\<lambda>u. (user_id u, userType u, isEmailVerified u, isActive u, isDeleted u))
                 (users convertedState)
               = [(''g1'', REGISTERED, False, True, False)]"
    by (simp add: guest_defs run_defs)
  have tok: "requestToken guestRequest = Some ''access:g1''"
    by (simp add: requestToken_def guestRequest_def)
  have nb: "\<not> AuthRepository_isTokenBlacklisted ''access:g1'' 130000 convertedState"
    by (simp add: guest_defs run_defs)
  have ver: "verifyToken sampleEnv ''access:g1'' 130000
             = Some \<lparr>jwt_id = Some ''g1'', jwt_exp = Some 1100\<rparr>"
    by (simp add: verifyToken_def tokenLive_def sampleEnv_simps)
  have acc: "fst (authenticate sampleEnv guestRequest 130000 convertedState)
             = Inr \<lparr>a_id = ''g1'', a_username = ''Guest_100000'',
                    a_email = ''guest_100000_abcdefg@guest.local'', a_role = USER,
                    a_userType = GUEST, a_isEmailVerified = True, a_isActive = True\<rparr>"
    by (simp add: guest_defs run_defs)
  from users tok nb ver acc show ?thesis by simp
qed

end
